theory Spec2Isabelle
  imports Complex_Main "HOL-Library.Word" "HOL-Library.AList" "HOL-Library.Multiset"
begin

section \<open>Palette generation: a model of main.py\<close>

text \<open>
  The program reads an image, clusters its pixels into five colours, orders the five
  centroids by luminance and derives an eleven-entry palette, which two writers store as
  an INI file and a RASI file.

  Python's floats are modelled as real numbers: every arithmetic step is exact, where the
  program rounds to a double. A digit of a shade can so differ by one from the digit the
  program prints when a double falls just below an integer, and two centroids of equal
  luminance can be ordered differently. Python's exceptions are values of the type
  \<open>error\<close>, and a function that may raise returns \<open>error + 'a\<close>.
\<close>

subsection \<open>Exceptions\<close>

datatype error =
    IndexError
  | KeyError string
  | ValueError string
  | cv2_error
  | OSError string
  | SystemExit int

subsection \<open>Python primitives used by the program\<close>

text \<open>\<open>int(x)\<close> on a float drops the fractional part: it truncates towards zero.\<close>

definition py_int :: "real \<Rightarrow> int" where
  "py_int x = (if 0 \<le> x then \<lfloor>x\<rfloor> else \<lceil>x\<rceil>)"

text \<open>\<open>xs[i]\<close> reads from the front for \<open>i \<ge> 0\<close> and from the back for \<open>i < 0\<close>; outside the list it raises.\<close>

definition getitem :: "'a list \<Rightarrow> int \<Rightarrow> error + 'a" where
  "getitem xs i =
     (if 0 \<le> i \<and> i < int (length xs) then Inr (xs ! nat i)
      else if i < 0 \<and> - int (length xs) \<le> i then Inr (xs ! nat (int (length xs) + i))
      else Inl IndexError)"

definition digit_char :: "nat \<Rightarrow> char" where
  "digit_char d = ''0123456789abcdef'' ! d"

text \<open>The digits of a natural number in base 10 and in base 16, most significant first.\<close>

function str_nat :: "nat \<Rightarrow> string" where
  "str_nat n = (if n < 10 then [digit_char n] else str_nat (n div 10) @ [digit_char (n mod 10)])"
  by pat_completeness auto
termination
  by (relation "measure (\<lambda>n. n)") auto

function hex_nat :: "nat \<Rightarrow> string" where
  "hex_nat n = (if n < 16 then [digit_char n] else hex_nat (n div 16) @ [digit_char (n mod 16)])"
  by pat_completeness auto
termination
  by (relation "measure (\<lambda>n. n)") auto

declare str_nat.simps [simp del]
declare hex_nat.simps [simp del]

text \<open>\<open>str(i)\<close>, as the f-string \<open>f"shade{9 - i}"\<close> formats its integer.\<close>

definition str_int :: "int \<Rightarrow> string" where
  "str_int i = (if i < 0 then CHR ''-'' # str_nat (nat (- i)) else str_nat (nat i))"

text \<open>
  The format specification \<open>{:02x}\<close>: lowercase hexadecimal, padded with zeros to a
  minimum width of two. The width is a minimum: a value above 255 gives three digits or
  more, and a negative value gives a sign followed by its digits.
\<close>

definition zfill :: "nat \<Rightarrow> string \<Rightarrow> string" where
  "zfill w s = replicate (w - length s) (CHR ''0'') @ s"

definition format_02x :: "int \<Rightarrow> string" where
  "format_02x n =
     (if n < 0 then CHR ''-'' # zfill 1 (hex_nat (nat (- n))) else zfill 2 (hex_nat (nat n)))"

text \<open>\<open>"#{:02x}{:02x}{:02x}".format(r, g, b)\<close>\<close>

definition hex_color :: "int \<times> int \<times> int \<Rightarrow> string" where
  "hex_color c = (case c of (r, g, b) \<Rightarrow> CHR ''#'' # format_02x r @ format_02x g @ format_02x b)"

subsection \<open>The standard library's colorsys\<close>

text \<open>
  \<open>rgb_to_hls\<close>, \<open>hls_to_rgb\<close> and its helper \<open>_v\<close> are the functions of CPython's
  \<open>colorsys\<close> module, which \<open>tweak_saturation\<close> calls. \<open>x % 1.0\<close> is the fractional
  part \<open>frac x\<close>, which lies in \<open>[0, 1)\<close> for a negative \<open>x\<close> too, as Python's
  \<open>%\<close> does.
\<close>

definition rgb_to_hls :: "real \<Rightarrow> real \<Rightarrow> real \<Rightarrow> real \<times> real \<times> real" where
  "rgb_to_hls r g b =
     (let maxc = max (max r g) b;
          minc = min (min r g) b;
          sumc = maxc + minc;
          rangec = maxc - minc;
          l = sumc / 2
      in if minc = maxc then (0, l, 0)
         else
           let s = (if l \<le> 1 / 2 then rangec / sumc else rangec / (2 - maxc - minc));
               rc = (maxc - r) / rangec;
               gc = (maxc - g) / rangec;
               bc = (maxc - b) / rangec;
               h = (if r = maxc then bc - gc
                    else if g = maxc then 2 + rc - bc
                    else 4 + gc - rc)
           in (frac (h / 6), l, s))"

definition v_hls :: "real \<Rightarrow> real \<Rightarrow> real \<Rightarrow> real" where
  "v_hls m1 m2 hue0 =
     (let hue = frac hue0
      in if hue < 1 / 6 then m1 + (m2 - m1) * hue * 6
         else if hue < 1 / 2 then m2
         else if hue < 2 / 3 then m1 + (m2 - m1) * (2 / 3 - hue) * 6
         else m1)"

definition hls_to_rgb :: "real \<Rightarrow> real \<Rightarrow> real \<Rightarrow> real \<times> real \<times> real" where
  "hls_to_rgb h l s =
     (if s = 0 then (l, l, l)
      else
        let m2 = (if l \<le> 1 / 2 then l * (1 + s) else l + s - l * s);
            m1 = 2 * l - m2
        in (v_hls m1 m2 (h + 1 / 3), v_hls m1 m2 h, v_hls m1 m2 (h - 1 / 3)))"

subsection \<open>The palette composer: the body of extract_colors after clustering\<close>

type_synonym color = "real \<times> real \<times> real"

text \<open>A palette is a Python dict from names to strings; the pairs are in insertion order.\<close>

type_synonym palette = "(string \<times> string) list"

definition luminance :: "color \<Rightarrow> real" where
  "luminance color =
     (case color of (c0, c1, c2) \<Rightarrow> 2126 / 10000 * c0 + 7152 / 10000 * c1 + 722 / 10000 * c2)"

text \<open>
  The list comprehensions \<open>[int(c) for c in center]\<close> and
  \<open>[int(x * 255) for x in (r, g, b)]\<close> pass each of three values to \<open>int\<close>.
\<close>

definition int_channels :: "real \<times> real \<times> real \<Rightarrow> int \<times> int \<times> int" where
  "int_channels y = (case y of (y0, y1, y2) \<Rightarrow> (py_int y0, py_int y1, py_int y2))"

text \<open>
  \<open>tweak_saturation\<close> in two steps: the channels that \<open>hls_to_rgb\<close> returns for the
  scaled and clamped saturation, and the list \<open>[int(x * 255) for x in (r, g, b)]\<close>.
\<close>

definition saturated_rgb :: "color \<Rightarrow> real \<Rightarrow> real \<times> real \<times> real" where
  "saturated_rgb rgb factor =
     (case rgb of (x0, x1, x2) \<Rightarrow>
        let r = x0 / 255; g = x1 / 255; b = x2 / 255 in
        case rgb_to_hls r g b of (h, l, s) \<Rightarrow>
        let s' = min (max (s * factor) 0) 1 in
        hls_to_rgb h l s')"

definition tweak_saturation :: "color \<Rightarrow> real \<Rightarrow> int \<times> int \<times> int" where
  "tweak_saturation rgb factor =
     (case saturated_rgb rgb factor of (r, g, b) \<Rightarrow> int_channels (r * 255, g * 255, b * 255))"

text \<open>\<open>"#{:02x}{:02x}{:02x}".format(*[int(c) for c in center])\<close>\<close>

definition center_hex :: "color \<Rightarrow> string" where
  "center_hex center = hex_color (int_channels center)"

definition shade_factors :: "real list" where
  "shade_factors = [1 / 2, 3 / 4, 1, 5 / 4, 3 / 2, 7 / 4, 2, 5 / 2]"

text \<open>
  The list comprehension \<open>[tweak_saturation(centers[1], factor) for factor in ...]\<close>:
  \<open>centers[1]\<close> is read once for each factor.
\<close>

fun make_shades :: "color list \<Rightarrow> real list \<Rightarrow> error + (int \<times> int \<times> int) list" where
  "make_shades centers [] = Inr []"
| "make_shades centers (factor # factors) =
     (case getitem centers 1 of
        Inl e \<Rightarrow> Inl e
      | Inr base \<Rightarrow>
          (case make_shades centers factors of
             Inl e \<Rightarrow> Inl e
           | Inr shades \<Rightarrow> Inr (tweak_saturation base factor # shades)))"

text \<open>
  The loop \<open>for i, shade in enumerate(shades, start=1): palette[f"shade{9 - i}"] = ...\<close>;
  \<open>AList.update\<close> overwrites the value of a key in place or appends a new pair, as a
  dict assignment does.
\<close>

fun assign_shades :: "int \<Rightarrow> (int \<times> int \<times> int) list \<Rightarrow> palette \<Rightarrow> palette" where
  "assign_shades i [] palette = palette"
| "assign_shades i (shade # shades) palette =
     assign_shades (i + 1) shades
       (AList.update (''shade'' @ str_int (9 - i)) (hex_color shade) palette)"

definition compose_palette :: "color list \<Rightarrow> error + palette" where
  "compose_palette cluster_centers =
     (let centers = sort_key luminance cluster_centers in
      case getitem centers 0 of Inl e \<Rightarrow> Inl e | Inr background \<Rightarrow>
     (case getitem centers (- 1) of Inl e \<Rightarrow> Inl e | Inr foreground \<Rightarrow>
     (case getitem centers (- 2) of Inl e \<Rightarrow> Inl e | Inr foreground_alt \<Rightarrow>
     (let palette = [(''background'', center_hex background),
                     (''foreground'', center_hex foreground),
                     (''foreground-alt'', center_hex foreground_alt)] in
      case make_shades centers shade_factors of Inl e \<Rightarrow> Inl e | Inr shades \<Rightarrow>
        Inr (assign_shades 1 shades palette)))))"

subsection \<open>The file system and the console\<close>

text \<open>
  The state the program acts on: regular files with their contents, directories, and the
  lines printed so far. Paths are compared as strings.
\<close>

record world =
  files :: "string \<rightharpoonup> string"
  dirs :: "string set"
  stdout :: "string list"

definition nl :: string where
  "nl = [CHR 0x0A]"

definition print :: "string \<Rightarrow> world \<Rightarrow> world" where
  "print line w = w\<lparr>stdout := stdout w @ [line]\<rparr>"

definition path_exists :: "world \<Rightarrow> string \<Rightarrow> bool" where
  "path_exists w p = (files w p \<noteq> None \<or> p \<in> dirs w)"

text \<open>\<open>os.path.join(a, b)\<close> for a relative \<open>b\<close>; \<open>os.path.dirname\<close>.\<close>

definition path_join :: "string \<Rightarrow> string \<Rightarrow> string" where
  "path_join a b = (if a = [] \<or> last a = CHR ''/'' then a @ b else a @ ''/'' @ b)"

definition dirname :: "string \<Rightarrow> string" where
  "dirname p =
     (let head = rev (dropWhile (\<lambda>c. c \<noteq> CHR ''/'') (rev p))
      in if head \<noteq> [] \<and> (\<exists>c \<in> set head. c \<noteq> CHR ''/'')
         then rev (dropWhile (\<lambda>c. c = CHR ''/'') (rev head)) else head)"

text \<open>The path itself and every non-empty prefix of it that ends before a separator.\<close>

definition ancestors :: "string \<Rightarrow> string list" where
  "ancestors p =
     filter (\<lambda>d. d \<noteq> [])
       (map (\<lambda>i. take i p) (filter (\<lambda>i. p ! i = CHR ''/'') [0..<length p])) @ [p]"

text \<open>
  \<open>os.makedirs(p, exist_ok=True)\<close> creates the directory and its missing parents; it
  raises when the path is empty or when a component of it is a regular file.
\<close>

definition makedirs :: "string \<Rightarrow> world \<Rightarrow> error + world" where
  "makedirs p w =
     (if p = [] then Inl (OSError p)
      else if \<exists>d \<in> set (ancestors p). files w d \<noteq> None then Inl (OSError p)
      else Inr (w\<lparr>dirs := dirs w \<union> set (ancestors p)\<rparr>))"

text \<open>
  \<open>with open(path, "w") as f: f.write(content)\<close> creates the file or replaces its
  contents; it raises when the path is a directory or its directory does not exist. A
  path without a directory part lies in the current directory.
\<close>

definition write_file :: "string \<Rightarrow> string \<Rightarrow> world \<Rightarrow> error + world" where
  "write_file path content w =
     (if path = [] \<or> path \<in> dirs w then Inl (OSError path)
      else if dirname path \<noteq> [] \<and> dirname path \<notin> dirs w then Inl (OSError path)
      else Inr (w\<lparr>files := (files w)(path \<mapsto> content)\<rparr>))"

subsection \<open>Image decoding and clustering\<close>

text \<open>
  An image as OpenCV decodes it: rows of pixels with 8-bit channels in the order blue,
  green, red. The decoder is a parameter: \<open>decode\<close> maps the bytes of a file to an image,
  or to \<open>None\<close> when they are no image. \<open>cv2.imread\<close> returns \<open>None\<close>, and does not
  raise, for a file that is missing or cannot be decoded.
\<close>

type_synonym pixel = "8 word \<times> 8 word \<times> 8 word"
type_synonym image = "pixel list list"

definition imread :: "(string \<Rightarrow> image option) \<Rightarrow> world \<Rightarrow> string \<Rightarrow> image option" where
  "imread decode w image_path =
     (case files w image_path of None \<Rightarrow> None | Some bytes \<Rightarrow> decode bytes)"

text \<open>\<open>cv2.cvtColor(image, cv2.COLOR_BGR2RGB)\<close> raises on \<open>None\<close> and on an empty image.\<close>

definition cvtColor_BGR2RGB :: "image option \<Rightarrow> error + image" where
  "cvtColor_BGR2RGB img =
     (case img of
        None \<Rightarrow> Inl cv2_error
      | Some rows \<Rightarrow>
          if concat rows = [] then Inl cv2_error
          else Inr (map (map (\<lambda>(b, g, r). (r, g, b))) rows))"

text \<open>\<open>image.reshape((image.shape[0] * image.shape[1], 3))\<close>: one row for each pixel.\<close>

definition reshape :: "image \<Rightarrow> pixel list" where
  "reshape img = concat img"

text \<open>
  \<open>KMeans(n_clusters=n).fit(X).cluster_centers_\<close> of scikit-learn. The library rejects
  an input with fewer samples than clusters by a ValueError, before it clusters; it does
  not count distinct samples. The iteration that computes the centroids starts from a
  random choice, so it is a parameter, \<open>lloyd\<close>.
\<close>

definition KMeans_fit ::
  "(nat \<Rightarrow> pixel list \<Rightarrow> color list) \<Rightarrow> nat \<Rightarrow> pixel list \<Rightarrow> error + color list" where
  "KMeans_fit lloyd n_clusters X =
     (if length X < n_clusters
      then Inl (ValueError (''n_samples='' @ str_nat (length X) @ '' should be >= n_clusters=''
                            @ str_nat n_clusters @ ''.''))
      else Inr (lloyd n_clusters X))"

definition extract_colors ::
  "(string \<Rightarrow> image option) \<Rightarrow> (nat \<Rightarrow> pixel list \<Rightarrow> color list) \<Rightarrow> world \<Rightarrow> string
     \<Rightarrow> error + palette" where
  "extract_colors decode lloyd w image_path =
     (case cvtColor_BGR2RGB (imread decode w image_path) of
        Inl e \<Rightarrow> Inl e
      | Inr img \<Rightarrow>
          (case KMeans_fit lloyd 5 (reshape img) of
             Inl e \<Rightarrow> Inl e
           | Inr cluster_centers \<Rightarrow> compose_palette cluster_centers))"

subsection \<open>The INI writer\<close>

text \<open>\<open>palette[key]\<close> raises KeyError for a key that the dict does not hold.\<close>

definition lookup :: "palette \<Rightarrow> string \<Rightarrow> error + string" where
  "lookup palette key = (case map_of palette key of None \<Rightarrow> Inl (KeyError key) | Some v \<Rightarrow> Inr v)"

text \<open>
  \<open>ConfigParser\<close> checks every value it stores for interpolation syntax
  (\<open>BasicInterpolation.before_set\<close>): after every \<open>%%\<close> and every reference
  \<open>%(name)s\<close> has been removed, a remaining \<open>%\<close> raises ValueError.
\<close>

fun drop_escaped :: "string \<Rightarrow> string" where
  "drop_escaped (a # b # cs) =
     (if a = CHR ''%'' \<and> b = CHR ''%'' then drop_escaped cs else a # drop_escaped (b # cs))"
| "drop_escaped cs = cs"

text \<open>What follows a reference \<open>%(name)s\<close> at the start of the string, if there is one.\<close>

definition match_key :: "string \<Rightarrow> string option" where
  "match_key s =
     (if take 2 s = ''%(''
      then let name = takeWhile (\<lambda>c. c \<noteq> CHR '')'') (drop 2 s);
               rest = dropWhile (\<lambda>c. c \<noteq> CHR '')'') (drop 2 s)
           in if name \<noteq> [] \<and> take 2 rest = '')s'' then Some (drop 2 rest) else None
      else None)"

function drop_keys :: "string \<Rightarrow> string" where
  "drop_keys [] = []"
| "drop_keys (c # cs) =
     (case match_key (c # cs) of Some rest \<Rightarrow> drop_keys rest | None \<Rightarrow> c # drop_keys cs)"
  by pat_completeness auto
termination
proof (relation "measure length")
  show "wf (measure length)" by simp
next
  fix c :: char and cs rest :: string
  assume m: "match_key (c # cs) = Some rest"
  have "length (dropWhile P xs) \<le> length xs" for P :: "char \<Rightarrow> bool" and xs
    by (rule length_dropWhile_le)
  from this [of "\<lambda>c. c \<noteq> CHR '')''" "drop 2 (c # cs)"] m
  have "length rest < length (c # cs)"
    by (auto simp: match_key_def Let_def split: if_splits)
  then show "(rest, c # cs) \<in> measure length" by simp
next
  fix c :: char and cs :: string
  show "(cs, c # cs) \<in> measure length" by simp
qed

definition interpolation_ok :: "string \<Rightarrow> bool" where
  "interpolation_ok v = (CHR ''%'' \<notin> set (drop_keys (drop_escaped v)))"

text \<open>
  \<open>repr\<close> of a string, which the message of that ValueError holds with the position
  of the offending \<open>%\<close>: quoted by \<open>'\<close>, or by \<open>"\<close> when the string holds \<open>'\<close> and
  no \<open>"\<close>; the quote and the backslash are escaped by a backslash, tab, line feed and
  carriage return are written \<open>\t\<close>, \<open>\n\<close>, \<open>\r\<close>, and any other control character
  \<open>\xhh\<close>. Characters beyond ASCII are taken to be printable.
\<close>

definition repr_char :: "char \<Rightarrow> char \<Rightarrow> string" where
  "repr_char quote c =
     (if c = quote \<or> c = CHR 0x5C then [CHR 0x5C, c]
      else if c = CHR 0x09 then [CHR 0x5C, CHR ''t'']
      else if c = CHR 0x0A then [CHR 0x5C, CHR ''n'']
      else if c = CHR 0x0D then [CHR 0x5C, CHR ''r'']
      else if (of_char c :: nat) < 32 \<or> (of_char c :: nat) = 127
      then [CHR 0x5C, CHR ''x'', digit_char (of_char c div 16), digit_char (of_char c mod 16)]
      else [c])"

definition py_repr :: "string \<Rightarrow> string" where
  "py_repr s =
     (let quote = (if CHR 0x27 \<in> set s \<and> CHR 0x22 \<notin> set s then CHR 0x22 else CHR 0x27)
      in quote # concat (map (repr_char quote) s) @ [quote])"

definition interpolation_error :: "string \<Rightarrow> error" where
  "interpolation_error v =
     ValueError (''invalid interpolation syntax in '' @ py_repr v @ '' at position ''
                 @ str_nat (length (takeWhile (\<lambda>c. c \<noteq> CHR ''%'') (drop_keys (drop_escaped v)))))"

text \<open>
  The options of the section \<open>color\<close>, in insertion order; the two comment lines are
  options without a value. Storing an option checks its value unless it is \<open>None\<close> or
  empty.
\<close>

type_synonym config = "(string \<times> string option) list"

definition config_set :: "string \<Rightarrow> string option \<Rightarrow> config \<Rightarrow> error + config" where
  "config_set key v config =
     (case v of
        None \<Rightarrow> Inr (AList.update key None config)
      | Some s \<Rightarrow>
          if s \<noteq> [] \<and> \<not> interpolation_ok s then Inl (interpolation_error s)
          else Inr (AList.update key (Some s) config))"

fun read_dict :: "(string \<times> string option) list \<Rightarrow> config \<Rightarrow> error + config" where
  "read_dict [] config = Inr config"
| "read_dict ((key, v) # items) config =
     (case config_set key v config of Inl e \<Rightarrow> Inl e | Inr config' \<Rightarrow> read_dict items config')"

text \<open>The dict literal assigned to \<open>config["color"]\<close>: its three lookups come first.\<close>

definition main_colors :: "palette \<Rightarrow> error + (string \<times> string option) list" where
  "main_colors palette =
     (case lookup palette ''background'' of Inl e \<Rightarrow> Inl e | Inr background \<Rightarrow>
     (case lookup palette ''foreground'' of Inl e \<Rightarrow> Inl e | Inr foreground \<Rightarrow>
     (case lookup palette ''foreground-alt'' of Inl e \<Rightarrow> Inl e | Inr foreground_alt \<Rightarrow>
        Inr [(''; main colors'', None),
             (''background'', Some background),
             (''foreground'', Some foreground),
             (''foreground-alt'', Some foreground_alt),
             (nl @ ''; shades'', None)])))"

text \<open>\<open>for i in range(1, 9): config["color"][f"shade{i}"] = palette[f"shade{i}"]\<close>\<close>

fun copy_shades :: "int list \<Rightarrow> palette \<Rightarrow> config \<Rightarrow> error + config" where
  "copy_shades [] palette config = Inr config"
| "copy_shades (i # rest) palette config =
     (case lookup palette (''shade'' @ str_int i) of
        Inl e \<Rightarrow> Inl e
      | Inr v \<Rightarrow>
          (case config_set (''shade'' @ str_int i) (Some v) config of
             Inl e \<Rightarrow> Inl e
           | Inr config' \<Rightarrow> copy_shades rest palette config'))"

text \<open>
  \<open>config.write\<close>: the section header, one line for each option (the key alone when it
  has no value, otherwise key, \<open>" = "\<close> and the value with its line breaks indented),
  and an empty line.
\<close>

definition option_line :: "string \<times> string option \<Rightarrow> string" where
  "option_line kv =
     (case kv of
        (key, None) \<Rightarrow> key @ nl
      | (key, Some v) \<Rightarrow>
          key @ '' = '' @ concat (map (\<lambda>c. if c = CHR 0x0A then nl @ [CHR 0x09] else [c]) v) @ nl)"

definition config_text :: "config \<Rightarrow> string" where
  "config_text config = ''[color]'' @ nl @ concat (map option_line config) @ nl"

text \<open>
  The writers return the outcome and the world they leave behind. \<open>if not palette\<close>
  holds for \<open>None\<close> and for the empty dict.
\<close>

definition save_palette_to_ini ::
  "palette option \<Rightarrow> string \<Rightarrow> world \<Rightarrow> (error + unit) \<times> world" where
  "save_palette_to_ini palette_opt output_path w =
     (case palette_opt of
        None \<Rightarrow> (Inr (), w)
      | Some palette \<Rightarrow>
          if palette = [] then (Inr (), w)
          else
            (case main_colors palette of Inl e \<Rightarrow> (Inl e, w) | Inr items \<Rightarrow>
            (case read_dict items [] of Inl e \<Rightarrow> (Inl e, w) | Inr config \<Rightarrow>
            (case copy_shades [1..8] palette config of Inl e \<Rightarrow> (Inl e, w) | Inr config' \<Rightarrow>
            (case write_file output_path (config_text config') w of
               Inl e \<Rightarrow> (Inl e, w)
             | Inr w' \<Rightarrow> (Inr (), print (''Palette saved to '' @ output_path) w'))))))"

subsection \<open>The RASI writer\<close>

text \<open>\<open>palette.get(key, default)\<close>\<close>

definition get_default :: "palette \<Rightarrow> string \<Rightarrow> string \<Rightarrow> string" where
  "get_default palette key d = (case map_of palette key of None \<Rightarrow> d | Some v \<Rightarrow> v)"

definition rasi_content :: "palette \<Rightarrow> error + string" where
  "rasi_content palette =
     (case lookup palette ''background'' of Inl e \<Rightarrow> Inl e | Inr background \<Rightarrow>
     (case lookup palette ''foreground'' of Inl e \<Rightarrow> Inl e | Inr foreground \<Rightarrow>
        Inr (''/* colors */'' @ nl @ nl @ ''* {'' @ nl
             @ ''  al:    #00000000;'' @ nl
             @ ''  bg:    '' @ background @ ''FF;'' @ nl
             @ ''  bg1:   '' @ get_default palette ''shade1'' ''#000000'' @ ''FF;'' @ nl
             @ ''  bg2:   '' @ get_default palette ''shade2'' ''#000000'' @ ''FF;'' @ nl
             @ ''  bg3:   '' @ get_default palette ''shade3'' ''#000000'' @ ''FF;'' @ nl
             @ ''  bg4:   '' @ get_default palette ''shade4'' ''#000000'' @ ''FF;'' @ nl
             @ ''  fg:    '' @ foreground @ ''FF;'' @ nl
             @ ''}'' @ nl)))"

definition save_palette_to_rasi ::
  "palette option \<Rightarrow> string \<Rightarrow> world \<Rightarrow> (error + unit) \<times> world" where
  "save_palette_to_rasi palette_opt output_path w =
     (case palette_opt of
        None \<Rightarrow> (Inr (), w)
      | Some palette \<Rightarrow>
          if palette = [] then (Inr (), w)
          else
            (case rasi_content palette of Inl e \<Rightarrow> (Inl e, w) | Inr content \<Rightarrow>
            (case write_file output_path content w of
               Inl e \<Rightarrow> (Inl e, w)
             | Inr w' \<Rightarrow> (Inr (), print (''RASI palette saved to '' @ output_path) w'))))"

subsection \<open>The command line entry point\<close>

text \<open>
  \<open>main\<close> after \<open>parse_args\<close>, with the two arguments it reads. \<open>sys.exit(1)\<close> raises
  \<open>SystemExit(1)\<close>; no exception is caught anywhere in the program.
\<close>

definition main ::
  "(string \<Rightarrow> image option) \<Rightarrow> (nat \<Rightarrow> pixel list \<Rightarrow> color list) \<Rightarrow> string \<Rightarrow> string \<Rightarrow> world
     \<Rightarrow> (error + unit) \<times> world" where
  "main decode lloyd image_path output_dir w =
     (if \<not> path_exists w image_path
      then (Inl (SystemExit 1),
            print (''Error: Image file '' @ [CHR 0x27] @ image_path @ [CHR 0x27] @ '' not found'') w)
      else
        (case makedirs output_dir w of Inl e \<Rightarrow> (Inl e, w) | Inr w1 \<Rightarrow>
        (let ini_path = path_join output_dir ''out.ini'';
             rasi_path = path_join output_dir ''out.rasi''
         in (case extract_colors decode lloyd w1 image_path of
               Inl e \<Rightarrow> (Inl e, w1)
             | Inr palette \<Rightarrow>
                 (if palette \<noteq> [] then
                    (case save_palette_to_ini (Some palette) ini_path w1 of
                       (Inl e, w2) \<Rightarrow> (Inl e, w2)
                     | (Inr u, w2) \<Rightarrow> save_palette_to_rasi (Some palette) rasi_path w2)
                  else (Inr (), w1))))))"

text \<open>
  The exit status of the process: the argument of \<open>sys.exit\<close>, 1 for any other uncaught
  exception, 0 when \<open>main\<close> returns.
\<close>

definition exit_status :: "error + unit \<Rightarrow> int" where
  "exit_status r = (case r of Inr u \<Rightarrow> 0 | Inl (SystemExit n) \<Rightarrow> n | Inl e \<Rightarrow> 1)"

subsection \<open>Predicates of the specification\<close>

text \<open>A channel normalised to the unit interval; a colour whose channels lie in [0, 255].\<close>

definition unit_interval :: "real \<Rightarrow> bool" where
  "unit_interval x = (0 \<le> x \<and> x \<le> 1)"

definition in_gamut :: "color \<Rightarrow> bool" where
  "in_gamut c =
     (case c of (c0, c1, c2) \<Rightarrow> 0 \<le> c0 \<and> c0 \<le> 255 \<and> 0 \<le> c1 \<and> c1 \<le> 255 \<and> 0 \<le> c2 \<and> c2 \<le> 255)"

definition byte_triple :: "int \<times> int \<times> int \<Rightarrow> bool" where
  "byte_triple t =
     (case t of (r, g, b) \<Rightarrow> 0 \<le> r \<and> r \<le> 255 \<and> 0 \<le> g \<and> g \<le> 255 \<and> 0 \<le> b \<and> b \<le> 255)"

text \<open>A string \<open>#rrggbb\<close>: a hash sign and exactly six lowercase hexadecimal digits.\<close>

definition is_hex_color :: "string \<Rightarrow> bool" where
  "is_hex_color s =
     (length s = 7 \<and> take 1 s = ''#'' \<and> list_all (\<lambda>c. c \<in> set ''0123456789abcdef'') (drop 1 s))"

text \<open>The eleven names of a palette.\<close>

definition palette_keys :: "string list" where
  "palette_keys =
     [''background'', ''foreground'', ''foreground-alt'', ''shade1'', ''shade2'', ''shade3'',
      ''shade4'', ''shade5'', ''shade6'', ''shade7'', ''shade8'']"

text \<open>The two lowercase hexadecimal digits of a byte.\<close>

definition hex2 :: "int \<Rightarrow> string" where
  "hex2 n = [''0123456789abcdef'' ! (nat n div 16), ''0123456789abcdef'' ! (nat n mod 16)]"



text \<open>
  The shade entries in the order in which the loop of \<open>extract_colors\<close> inserts them,
  for the base colour \<open>centers[1]\<close>.
\<close>

definition shades_of :: "color \<Rightarrow> (string \<times> string) list" where
  "shades_of base =
     [(''shade8'', hex_color (tweak_saturation base (1 / 2))),
      (''shade7'', hex_color (tweak_saturation base (3 / 4))),
      (''shade6'', hex_color (tweak_saturation base 1)),
      (''shade5'', hex_color (tweak_saturation base (5 / 4))),
      (''shade4'', hex_color (tweak_saturation base (3 / 2))),
      (''shade3'', hex_color (tweak_saturation base (7 / 4))),
      (''shade2'', hex_color (tweak_saturation base 2)),
      (''shade1'', hex_color (tweak_saturation base (5 / 2)))]"




text \<open>The colour that a string \<open>#rrggbb\<close> denotes, to compute the luminance of a palette entry.\<close>

definition hex_value :: "char \<Rightarrow> nat" where
  "hex_value c = length (takeWhile (\<lambda>d. d \<noteq> c) ''0123456789abcdef'')"

definition color_of_hex :: "string \<Rightarrow> color" where
  "color_of_hex s =
     (real (16 * hex_value (s ! 1) + hex_value (s ! 2)),
      real (16 * hex_value (s ! 3) + hex_value (s ! 4)),
      real (16 * hex_value (s ! 5) + hex_value (s ! 6)))"

subsection \<open>Example inputs\<close>

text \<open>
  A decoder that knows three files, and a clustering that takes \<open>k\<close> distinct colours
  of its input as centroids, repeating the first sample when there are fewer.
\<close>

definition five_color_image :: image where
  "five_color_image =
     [[(0, 0, 0), (255, 255, 255), (128, 128, 128)],
      [(10, 10, 10), (245, 245, 245), (0, 0, 0)]]"

definition solid_image :: image where
  "solid_image =
     [[(30, 20, 10), (30, 20, 10), (30, 20, 10), (30, 20, 10)],
      [(30, 20, 10), (30, 20, 10), (30, 20, 10), (30, 20, 10)],
      [(30, 20, 10), (30, 20, 10), (30, 20, 10), (30, 20, 10)],
      [(30, 20, 10), (30, 20, 10), (30, 20, 10), (30, 20, 10)]]"

definition tiny_image :: image where
  "tiny_image = [[(30, 20, 10), (200, 100, 50)], [(0, 0, 0), (255, 255, 255)]]"

definition example_decode :: "string \<Rightarrow> image option" where
  "example_decode bytes =
     (if bytes = ''five'' then Some five_color_image
      else if bytes = ''solid'' then Some solid_image
      else if bytes = ''tiny'' then Some tiny_image
      else None)"

definition color_of_pixel :: "pixel \<Rightarrow> color" where
  "color_of_pixel p = (case p of (r, g, b) \<Rightarrow> (real (unat r), real (unat g), real (unat b)))"

definition example_lloyd :: "nat \<Rightarrow> pixel list \<Rightarrow> color list" where
  "example_lloyd k X = map color_of_pixel (take k (remdups X @ replicate k (hd X)))"

definition example_world :: world where
  "example_world =
     \<lparr>files = [''five.png'' \<mapsto> ''five'', ''solid.png'' \<mapsto> ''solid'', ''tiny.png'' \<mapsto> ''tiny''],
      dirs = {''.''},
      stdout = []\<rparr>"

definition two_color_palette :: palette where
  "two_color_palette = [(''background'', ''#000000''), (''foreground'', ''#ffffff'')]"

definition percent_palette :: palette where
  "percent_palette =
     [(''background'', ''50%''), (''foreground'', ''#ffffff''), (''foreground-alt'', ''#f5f5f5'')]"

definition example_centers :: "color list" where
  "example_centers = [(200, 100, 50), (255, 255, 255), (128, 128, 128), (10, 20, 30), (245, 245, 245)]"

section \<open>Properties\<close>

subsection \<open>The HLS round trip stays inside the unit interval\<close>

lemma v_hls_bounds:
  assumes "m1 \<le> m2"
  shows "m1 \<le> v_hls m1 m2 hue" and "v_hls m1 m2 hue \<le> m2"
proof -
  define t where "t = frac hue"
  have t0: "0 \<le> t" by (simp add: t_def)
  have d: "0 \<le> m2 - m1" using assms by simp
  have a: "0 \<le> (m2 - m1) * t * 6" using d t0 by simp
  have b: "(m2 - m1) * t * 6 \<le> m2 - m1" if "t < 1 / 6"
  proof -
    have "t * 6 \<le> 1" using that by simp
    then have "(m2 - m1) * (t * 6) \<le> (m2 - m1) * 1" using d by (rule mult_left_mono)
    then show ?thesis by (simp add: mult.assoc)
  qed
  have c: "0 \<le> (m2 - m1) * (2 / 3 - t) * 6" if "t < 2 / 3"
    using d that by simp
  have e: "(m2 - m1) * (2 / 3 - t) * 6 \<le> m2 - m1" if "\<not> t < 1 / 2"
  proof -
    have "(2 / 3 - t) * 6 \<le> 1" using that by simp
    then have "(m2 - m1) * ((2 / 3 - t) * 6) \<le> (m2 - m1) * 1" using d by (rule mult_left_mono)
    then show ?thesis by (simp add: mult.assoc)
  qed
  show "m1 \<le> v_hls m1 m2 hue"
    using a c assms by (auto simp: v_hls_def Let_def t_def [symmetric])
  show "v_hls m1 m2 hue \<le> m2"
    using b e assms by (auto simp: v_hls_def Let_def t_def [symmetric])
qed

lemma hls_m_bounds:
  fixes l s :: real
  assumes "0 \<le> l" "l \<le> 1" "0 \<le> s" "s \<le> 1"
  defines "m2 \<equiv> (if l \<le> 1 / 2 then l * (1 + s) else l + s - l * s)"
  shows "0 \<le> 2 * l - m2" and "2 * l - m2 \<le> m2" and "m2 \<le> 1"
proof -
  have ls: "0 \<le> l * s" using assms by simp
  have ls1: "l * s \<le> l" using assms by (simp add: mult_left_le)
  have ls2: "l * s \<le> s" using assms by (simp add: mult_left_le_one_le)
  have q: "0 \<le> (1 - l) * (1 - s)" using assms by simp
  then have q': "l + s - l * s \<le> 1" by (simp add: algebra_simps)
  show "0 \<le> 2 * l - m2"
  proof (cases "l \<le> 1 / 2")
    case True then show ?thesis using ls1 by (simp add: m2_def algebra_simps)
  next
    case False
    have "s * (1 - l) \<le> 1 * (1 - l)" using assms by (intro mult_right_mono) simp_all
    then show ?thesis using False by (simp add: m2_def algebra_simps)
  qed
  show "2 * l - m2 \<le> m2"
  proof (cases "l \<le> 1 / 2")
    case True then show ?thesis using ls by (simp add: m2_def algebra_simps)
  next
    case False then show ?thesis using ls2 by (simp add: m2_def algebra_simps)
  qed
  show "m2 \<le> 1"
  proof (cases "l \<le> 1 / 2")
    case True then show ?thesis using ls1 by (simp add: m2_def algebra_simps)
  next
    case False then show ?thesis using q' by (simp add: m2_def)
  qed
qed

lemma hls_to_rgb_unit:
  assumes "0 \<le> l" "l \<le> 1" "0 \<le> s" "s \<le> 1" "hls_to_rgb h l s = (r, g, b)"
  shows "unit_interval r \<and> unit_interval g \<and> unit_interval b"
proof (cases "s = 0")
  case True
  then show ?thesis using assms by (auto simp: hls_to_rgb_def unit_interval_def)
next
  case False
  define m2 where "m2 = (if l \<le> 1 / 2 then l * (1 + s) else l + s - l * s)"
  define m1 where "m1 = 2 * l - m2"
  have m: "0 \<le> m1" "m1 \<le> m2" "m2 \<le> 1"
    using hls_m_bounds [OF assms(1-4)] by (simp_all add: m1_def m2_def)
  have eq: "r = v_hls m1 m2 (h + 1 / 3)" "g = v_hls m1 m2 h" "b = v_hls m1 m2 (h - 1 / 3)"
    using assms(5) False by (simp_all add: hls_to_rgb_def Let_def m1_def m2_def)
  show ?thesis
    unfolding eq unit_interval_def
    using v_hls_bounds [OF m(2)] m(1,3) by (meson order_trans)
qed

lemma half_sum_unit:
  fixes l :: real
  shows "l = (M + m) / 2 \<Longrightarrow> 0 \<le> M \<Longrightarrow> M \<le> 1 \<Longrightarrow> 0 \<le> m \<Longrightarrow> m \<le> 1 \<Longrightarrow> 0 \<le> l \<and> l \<le> 1"
  by auto

lemma rgb_to_hls_lightness:
  assumes "unit_interval r" "unit_interval g" "unit_interval b" "rgb_to_hls r g b = (h, l, s)"
  shows "0 \<le> l \<and> l \<le> 1"
proof -
  have "l = (max (max r g) b + min (min r g) b) / 2"
    using assms(4) by (auto simp: rgb_to_hls_def Let_def split: if_splits)
  moreover have "0 \<le> max (max r g) b" "max (max r g) b \<le> 1"
    "0 \<le> min (min r g) b" "min (min r g) b \<le> 1"
    using assms(1-3) by (auto simp: unit_interval_def)
  ultimately show ?thesis by (rule half_sum_unit)
qed

lemma py_int_scaled:
  assumes "unit_interval x"
  shows "py_int (x * 255) = \<lfloor>x * 255\<rfloor>" "0 \<le> py_int (x * 255)" "py_int (x * 255) \<le> 255"
proof -
  have x: "0 \<le> x * 255" "x * 255 \<le> 255" using assms by (simp_all add: unit_interval_def)
  show "py_int (x * 255) = \<lfloor>x * 255\<rfloor>" using x by (simp add: py_int_def)
  show "0 \<le> py_int (x * 255)" using x by (simp add: py_int_def)
  have "\<lfloor>x * 255\<rfloor> \<le> \<lfloor>255 :: real\<rfloor>" using x(2) by (rule floor_mono)
  then show "py_int (x * 255) \<le> 255" using x by (simp add: py_int_def)
qed

lemma saturated_rgb_unit:
  assumes "in_gamut rgb" "saturated_rgb rgb factor = (r, g, b)"
  shows "unit_interval r \<and> unit_interval g \<and> unit_interval b"
proof -
  obtain x0 x1 x2 where rgb: "rgb = (x0, x1, x2)" by (cases rgb)
  obtain h l s where hls: "rgb_to_hls (x0 / 255) (x1 / 255) (x2 / 255) = (h, l, s)"
    by (cases "rgb_to_hls (x0 / 255) (x1 / 255) (x2 / 255)")
  define s' where "s' = min (max (s * factor) 0) 1"
  have u: "unit_interval (x0 / 255)" "unit_interval (x1 / 255)" "unit_interval (x2 / 255)"
    using assms(1) by (simp_all add: rgb in_gamut_def unit_interval_def)
  have l: "0 \<le> l" "l \<le> 1" using rgb_to_hls_lightness [OF u hls] by simp_all
  have s: "0 \<le> s'" "s' \<le> 1" by (simp_all add: s'_def)
  have "hls_to_rgb h l s' = (r, g, b)"
    using assms(2) by (simp add: saturated_rgb_def rgb hls Let_def s'_def [symmetric])
  then show ?thesis by (rule hls_to_rgb_unit [OF l s])
qed

lemma tweak_saturation_bytes:
  assumes "in_gamut rgb"
  shows "byte_triple (tweak_saturation rgb factor)"
proof -
  obtain r g b where sat: "saturated_rgb rgb factor = (r, g, b)"
    by (cases "saturated_rgb rgb factor")
  have ch: "unit_interval r" "unit_interval g" "unit_interval b"
    using saturated_rgb_unit [OF assms sat] by simp_all
  have "tweak_saturation rgb factor = (py_int (r * 255), py_int (g * 255), py_int (b * 255))"
    by (simp add: tweak_saturation_def int_channels_def sat)
  then show ?thesis
    using py_int_scaled(2,3) [OF ch(1)] py_int_scaled(2,3) [OF ch(2)] py_int_scaled(2,3) [OF ch(3)]
    by (simp add: byte_triple_def)
qed

subsection \<open>Hexadecimal formatting\<close>

lemma digit_char_hex: "d < 16 \<Longrightarrow> digit_char d \<in> set ''0123456789abcdef''"
  unfolding digit_char_def by (rule nth_mem) simp

lemma digit_char_0: "digit_char 0 = CHR ''0''"
  by (simp add: digit_char_def)

lemma hex_nat_byte:
  assumes "n < 256"
  shows "zfill 2 (hex_nat n) = [digit_char (n div 16), digit_char (n mod 16)]"
proof (cases "n < 16")
  case True
  then show ?thesis by (simp add: hex_nat.simps [of n] zfill_def digit_char_0)
next
  case False
  then have "n div 16 < 16" using assms by simp
  then have "hex_nat (n div 16) = [digit_char (n div 16)]" by (simp add: hex_nat.simps [of "n div 16"])
  then show ?thesis using False by (simp add: hex_nat.simps [of n] zfill_def)
qed

lemma format_02x_byte:
  assumes "0 \<le> n" "n \<le> 255"
  shows "format_02x n = [digit_char (nat n div 16), digit_char (nat n mod 16)]"
  using assms hex_nat_byte [of "nat n"] by (simp add: format_02x_def)

lemma hex_color_byte_triple:
  assumes "byte_triple t"
  shows "is_hex_color (hex_color t)"
proof -
  obtain r g b where t: "t = (r, g, b)" by (cases t)
  have d: "digit_char (nat x div 16) \<in> set ''0123456789abcdef''"
       "digit_char (nat x mod 16) \<in> set ''0123456789abcdef''" if "0 \<le> x" "x \<le> 255" for x :: int
  proof -
    have "nat x div 16 < 16" using that by simp
    then show "digit_char (nat x div 16) \<in> set ''0123456789abcdef''" by (rule digit_char_hex)
    show "digit_char (nat x mod 16) \<in> set ''0123456789abcdef''" by (rule digit_char_hex) simp
  qed
  show ?thesis
    using assms d [of r] d [of g] d [of b]
    by (simp add: t byte_triple_def hex_color_def is_hex_color_def format_02x_byte)
qed

lemma py_int_gamut:
  assumes "0 \<le> x" "x \<le> 255"
  shows "py_int x = \<lfloor>x\<rfloor>" "0 \<le> \<lfloor>x\<rfloor>" "\<lfloor>x\<rfloor> \<le> 255"
proof -
  show "py_int x = \<lfloor>x\<rfloor>" using assms by (simp add: py_int_def)
  show "0 \<le> \<lfloor>x\<rfloor>" using assms by simp
  have "\<lfloor>x\<rfloor> \<le> \<lfloor>255 :: real\<rfloor>" using assms(2) by (rule floor_mono)
  then show "\<lfloor>x\<rfloor> \<le> 255" by simp
qed

lemma hex_color_hex2:
  assumes "byte_triple (r, g, b)"
  shows "hex_color (r, g, b) = CHR ''#'' # hex2 r @ hex2 g @ hex2 b"
  using assms by (simp add: hex_color_def byte_triple_def format_02x_byte hex2_def digit_char_def)

lemma center_hex_floor:
  assumes "in_gamut (c0, c1, c2)"
  shows "center_hex (c0, c1, c2) = CHR ''#'' # hex2 \<lfloor>c0\<rfloor> @ hex2 \<lfloor>c1\<rfloor> @ hex2 \<lfloor>c2\<rfloor>"
proof -
  have c: "0 \<le> c0" "c0 \<le> 255" "0 \<le> c1" "c1 \<le> 255" "0 \<le> c2" "c2 \<le> 255"
    using assms by (simp_all add: in_gamut_def)
  have "byte_triple (\<lfloor>c0\<rfloor>, \<lfloor>c1\<rfloor>, \<lfloor>c2\<rfloor>)"
    using py_int_gamut(2,3) [OF c(1,2)] py_int_gamut(2,3) [OF c(3,4)] py_int_gamut(2,3) [OF c(5,6)]
    by (simp add: byte_triple_def)
  then show ?thesis
    using py_int_gamut(1) [OF c(1,2)] py_int_gamut(1) [OF c(3,4)] py_int_gamut(1) [OF c(5,6)]
    by (simp add: center_hex_def int_channels_def hex_color_hex2)
qed

lemma center_hex_is_hex:
  assumes "in_gamut c"
  shows "is_hex_color (center_hex c)"
proof -
  obtain c0 c1 c2 where c: "c = (c0, c1, c2)" by (cases c)
  have b: "0 \<le> c0" "c0 \<le> 255" "0 \<le> c1" "c1 \<le> 255" "0 \<le> c2" "c2 \<le> 255"
    using assms by (simp_all add: c in_gamut_def)
  have "byte_triple (py_int c0, py_int c1, py_int c2)"
    using py_int_gamut [OF b(1,2)] py_int_gamut [OF b(3,4)] py_int_gamut [OF b(5,6)]
    by (simp add: byte_triple_def)
  then show ?thesis unfolding c center_hex_def int_channels_def prod.case by (rule hex_color_byte_triple)
qed

lemma hex_value_digit:
  assumes "d < 16"
  shows "hex_value (digit_char d) = d"
proof -
  have "\<forall>d \<in> set [0..<16]. hex_value (digit_char d) = d" by code_simp
  then show ?thesis using assms by simp
qed

lemma byte_of_hex2:
  assumes "0 \<le> n" "n \<le> 255"
  shows "real (16 * hex_value (hex2 n ! 0) + hex_value (hex2 n ! 1)) = real_of_int n"
proof -
  have "nat n div 16 < 16" using assms by simp
  then have "16 * hex_value (hex2 n ! 0) + hex_value (hex2 n ! 1) = 16 * (nat n div 16) + nat n mod 16"
    by (simp add: hex2_def digit_char_def [symmetric] hex_value_digit)
  also have "\<dots> = nat n" by simp
  finally show ?thesis using assms by simp
qed

lemma color_of_hex_center:
  assumes "in_gamut (c0, c1, c2)"
  shows "color_of_hex (center_hex (c0, c1, c2)) = (real_of_int \<lfloor>c0\<rfloor>, real_of_int \<lfloor>c1\<rfloor>, real_of_int \<lfloor>c2\<rfloor>)"
proof -
  have c: "0 \<le> c0" "c0 \<le> 255" "0 \<le> c1" "c1 \<le> 255" "0 \<le> c2" "c2 \<le> 255"
    using assms by (simp_all add: in_gamut_def)
  have n: "(CHR ''#'' # hex2 x @ hex2 y @ hex2 z) ! 1 = hex2 x ! 0"
          "(CHR ''#'' # hex2 x @ hex2 y @ hex2 z) ! 2 = hex2 x ! 1"
          "(CHR ''#'' # hex2 x @ hex2 y @ hex2 z) ! 3 = hex2 y ! 0"
          "(CHR ''#'' # hex2 x @ hex2 y @ hex2 z) ! 4 = hex2 y ! 1"
          "(CHR ''#'' # hex2 x @ hex2 y @ hex2 z) ! 5 = hex2 z ! 0"
          "(CHR ''#'' # hex2 x @ hex2 y @ hex2 z) ! 6 = hex2 z ! 1" for x y z
    by (simp_all add: hex2_def)
  show ?thesis
    unfolding center_hex_floor [OF assms] color_of_hex_def n
    using byte_of_hex2 [OF py_int_gamut(2,3) [OF c(1,2)]]
          byte_of_hex2 [OF py_int_gamut(2,3) [OF c(3,4)]]
          byte_of_hex2 [OF py_int_gamut(2,3) [OF c(5,6)]]
    by simp
qed

lemma luminance_floor:
  shows "luminance (real_of_int \<lfloor>c0\<rfloor>, real_of_int \<lfloor>c1\<rfloor>, real_of_int \<lfloor>c2\<rfloor>) \<le> luminance (c0, c1, c2)"
    and "luminance (c0, c1, c2) < luminance (real_of_int \<lfloor>c0\<rfloor>, real_of_int \<lfloor>c1\<rfloor>, real_of_int \<lfloor>c2\<rfloor>) + 1"
proof -
  have f: "real_of_int \<lfloor>x\<rfloor> \<le> x" "x < real_of_int \<lfloor>x\<rfloor> + 1" for x :: real
    by linarith+
  show "luminance (real_of_int \<lfloor>c0\<rfloor>, real_of_int \<lfloor>c1\<rfloor>, real_of_int \<lfloor>c2\<rfloor>) \<le> luminance (c0, c1, c2)"
    unfolding luminance_def prod.case using f(1) [of c0] f(1) [of c1] f(1) [of c2] by linarith
  show "luminance (c0, c1, c2) < luminance (real_of_int \<lfloor>c0\<rfloor>, real_of_int \<lfloor>c1\<rfloor>, real_of_int \<lfloor>c2\<rfloor>) + 1"
    unfolding luminance_def prod.case using f(2) [of c0] f(2) [of c1] f(2) [of c2] by linarith
qed

lemma hex_luminance:
  assumes "in_gamut c"
  shows "luminance (color_of_hex (center_hex c)) \<le> luminance c"
    and "luminance c < luminance (color_of_hex (center_hex c)) + 1"
proof -
  obtain c0 c1 c2 where c: "c = (c0, c1, c2)" by (cases c)
  show "luminance (color_of_hex (center_hex c)) \<le> luminance c"
    using assms luminance_floor(1) [of c0 c1 c2] by (simp add: c color_of_hex_center)
  show "luminance c < luminance (color_of_hex (center_hex c)) + 1"
    using assms luminance_floor(2) [of c0 c1 c2] by (simp add: c color_of_hex_center)
qed

subsection \<open>The composed palette in closed form\<close>

lemma getitem_simps:
  "getitem xs 0 = (if xs = [] then Inl IndexError else Inr (xs ! 0))"
  "getitem xs 1 = (if length xs < 2 then Inl IndexError else Inr (xs ! 1))"
  "getitem xs (- 1) = (if xs = [] then Inl IndexError else Inr (xs ! (length xs - 1)))"
  "getitem xs (- 2) = (if length xs < 2 then Inl IndexError else Inr (xs ! (length xs - 2)))"
proof -
  have a: "nat (int (length xs) + - 1) = length xs - 1" "nat (int (length xs) + - 2) = length xs - 2"
    by arith+
  have e: "xs = [] \<longleftrightarrow> length xs = 0" by simp
  show "getitem xs 0 = (if xs = [] then Inl IndexError else Inr (xs ! 0))"
    unfolding e by (simp add: getitem_def)
  show "getitem xs 1 = (if length xs < 2 then Inl IndexError else Inr (xs ! 1))"
    by (auto simp: getitem_def)
  show "getitem xs (- 1) = (if xs = [] then Inl IndexError else Inr (xs ! (length xs - 1)))"
    using a by (cases xs) (auto simp: getitem_def)
  show "getitem xs (- 2) = (if length xs < 2 then Inl IndexError else Inr (xs ! (length xs - 2)))"
    using a by (auto simp: getitem_def)
qed

lemma str_int_digit:
  "str_int 1 = ''1''" "str_int 2 = ''2''" "str_int 3 = ''3''" "str_int 4 = ''4''"
  "str_int 5 = ''5''" "str_int 6 = ''6''" "str_int 7 = ''7''" "str_int 8 = ''8''"
  by (simp_all add: str_int_def str_nat.simps digit_char_def)

lemma make_shades_ok:
  assumes "2 \<le> length centers"
  shows "make_shades centers factors = Inr (map (tweak_saturation (centers ! 1)) factors)"
  using assms by (induction factors) (simp_all add: getitem_simps)

lemma assign_shades_eq:
  "assign_shades 1 (map (tweak_saturation base) shade_factors)
     [(''background'', a), (''foreground'', b), (''foreground-alt'', c)] =
   [(''background'', a), (''foreground'', b), (''foreground-alt'', c)] @ shades_of base"
  by (simp add: shade_factors_def str_int_digit shades_of_def)

lemma compose_palette_eq:
  assumes "2 \<le> length cs"
  shows "compose_palette cs =
     Inr ([(''background'', center_hex (sort_key luminance cs ! 0)),
           (''foreground'', center_hex (sort_key luminance cs ! (length cs - 1))),
           (''foreground-alt'', center_hex (sort_key luminance cs ! (length cs - 2)))]
          @ shades_of (sort_key luminance cs ! 1))"
proof -
  define centers where "centers = sort_key luminance cs"
  have len: "length centers = length cs" by (simp add: centers_def)
  have ne: "centers \<noteq> []" using assms(1) len by auto
  have ms: "make_shades centers shade_factors = Inr (map (tweak_saturation (centers ! 1)) shade_factors)"
    using assms(1) len by (simp add: make_shades_ok)
  have g: "getitem centers 0 = Inr (centers ! 0)"
    "getitem centers (- 1) = Inr (centers ! (length cs - 1))"
    "getitem centers (- 2) = Inr (centers ! (length cs - 2))"
    using assms ne len by (simp_all add: getitem_simps)
  have "compose_palette cs = Inr (assign_shades 1 (map (tweak_saturation (centers ! 1)) shade_factors)
     [(''background'', center_hex (centers ! 0)),
           (''foreground'', center_hex (centers ! (length cs - 1))),
           (''foreground-alt'', center_hex (centers ! (length cs - 2)))])"
    unfolding compose_palette_def centers_def [symmetric] Let_def g ms by simp
  then show ?thesis unfolding assign_shades_eq centers_def by simp
qed

lemma sorted_centers_luminance:
  assumes "i \<le> j" "j < length cs"
  shows "luminance (sort_key luminance cs ! i) \<le> luminance (sort_key luminance cs ! j)"
proof -
  have "sorted (map luminance (sort_key luminance cs))" by (rule sorted_sort_key)
  then have "map luminance (sort_key luminance cs) ! i \<le> map luminance (sort_key luminance cs) ! j"
    using assms by (simp add: sorted_iff_nth_mono del: sorted_sort_key)
  then show ?thesis using assms by simp
qed

lemma sorted_center_in_set:
  assumes "i < length cs"
  shows "sort_key luminance cs ! i \<in> set cs"
proof -
  have "sort_key luminance cs ! i \<in> set (sort_key luminance cs)"
    using assms by (intro nth_mem) simp
  then show ?thesis by simp
qed

lemma shades_of_hex:
  assumes "in_gamut base"
  shows "list_all is_hex_color (map snd (shades_of base))"
  using hex_color_byte_triple [OF tweak_saturation_bytes [OF assms]]
  by (simp add: shades_of_def)

lemma shades_of_keys:
  "map fst (shades_of base)
     = [''shade8'', ''shade7'', ''shade6'', ''shade5'', ''shade4'', ''shade3'', ''shade2'', ''shade1'']"
  by (simp add: shades_of_def)

lemma compose_palette_wellformed:
  assumes "length cs = 5" "list_all in_gamut cs"
  shows "\<exists>palette. compose_palette cs = Inr palette
           \<and> distinct (map fst palette) \<and> set (map fst palette) = set palette_keys
           \<and> list_all is_hex_color (map snd palette)"
proof -
  define centers where "centers = sort_key luminance cs"
  have g: "in_gamut (centers ! i)" if "i < 5" for i
    using that assms sorted_center_in_set [of i cs] by (simp add: centers_def list_all_iff)
  have p: "compose_palette cs =
     Inr ([(''background'', center_hex (centers ! 0)),
           (''foreground'', center_hex (centers ! 4)),
           (''foreground-alt'', center_hex (centers ! 3))] @ shades_of (centers ! 1))"
    using compose_palette_eq [of cs] assms(1) by (simp add: centers_def)
  have "list_all is_hex_color (map snd ([(''background'', center_hex (centers ! 0)),
           (''foreground'', center_hex (centers ! 4)),
           (''foreground-alt'', center_hex (centers ! 3))] @ shades_of (centers ! 1)))"
    using center_hex_is_hex [OF g [of 0]] center_hex_is_hex [OF g [of 4]]
      center_hex_is_hex [OF g [of 3]] shades_of_hex [OF g [of 1]]
    by simp
  moreover have "map fst ([(''background'', center_hex (centers ! 0)),
           (''foreground'', center_hex (centers ! 4)),
           (''foreground-alt'', center_hex (centers ! 3))] @ shades_of (centers ! 1))
      = [''background'', ''foreground'', ''foreground-alt'', ''shade8'', ''shade7'', ''shade6'',
         ''shade5'', ''shade4'', ''shade3'', ''shade2'', ''shade1'']"
    by (simp add: shades_of_keys)
  moreover have "distinct [''background'', ''foreground'', ''foreground-alt'', ''shade8'', ''shade7'', ''shade6'',
         ''shade5'', ''shade4'', ''shade3'', ''shade2'', ''shade1'']"
    by simp
  moreover have "set [''background'', ''foreground'', ''foreground-alt'', ''shade8'', ''shade7'', ''shade6'',
         ''shade5'', ''shade4'', ''shade3'', ''shade2'', ''shade1''] = set palette_keys"
    by (auto simp: palette_keys_def)
  ultimately show ?thesis unfolding p by metis
qed

lemma filter_eq_singleton:
  "distinct xs \<Longrightarrow> k \<in> set xs \<Longrightarrow> filter (\<lambda>x. k = x) xs = [k]"
proof (induction xs)
  case Nil
  then show ?case by simp
next
  case (Cons x xs)
  show ?case
  proof (cases "k = x")
    case True
    then have "k \<notin> set xs" using Cons.prems by simp
    then have "filter (\<lambda>x. k = x) xs = []" by (auto simp: filter_empty_conv)
    then show ?thesis using True by simp
  next
    case False
    then show ?thesis using Cons by simp
  qed
qed

lemma sort_key_unique:
  assumes "mset xs = mset ys" "sorted (map f ys)" "distinct (map f ys)"
  shows "sort_key f xs = ys"
proof (rule properties_for_sort_key)
  show "mset ys = mset xs" using assms(1) by simp
  show "sorted (map f ys)" by fact
  fix k assume k: "k \<in> set ys"
  have inj: "inj_on f (set ys)" and d: "distinct ys" using assms(3) by (simp_all add: distinct_map)
  have fy: "filter (\<lambda>x. f k = f x) ys = filter (\<lambda>x. k = x) ys"
    by (rule filter_cong) (use k inj in \<open>auto simp: inj_on_def\<close>)
  have sx: "set xs = set ys" using assms(1) by (rule mset_eq_setD)
  have dx: "distinct xs" using d assms(1) by (metis mset_eq_imp_distinct_iff)
  have fx: "filter (\<lambda>x. f k = f x) xs = filter (\<lambda>x. k = x) xs"
    by (rule filter_cong) (use k inj sx in \<open>auto simp: inj_on_def\<close>)
  have "filter (\<lambda>x. k = x) ys = [k]" using k d by (simp add: filter_eq_singleton)
  moreover have "filter (\<lambda>x. k = x) xs = [k]" using k dx sx by (simp add: filter_eq_singleton)
  ultimately show "filter (\<lambda>x. f k = f x) ys = filter (\<lambda>x. f k = f x) xs"
    using fx fy by simp
qed

lemma sorted_five:
  assumes "mset cs = mset [(0, 0, 0), (255, 255, 255), (128, 128, 128), (10, 10, 10), (245, 245, 245)]"
  shows "sort_key luminance cs = [(0, 0, 0), (10, 10, 10), (128, 128, 128), (245, 245, 245), (255, 255, 255)]"
proof (rule sort_key_unique)
  show "mset cs = mset [(0, 0, 0), (10, 10, 10), (128, 128, 128), (245, 245, 245), (255, 255, 255)]"
    using assms by (simp add: add.commute add.left_commute add_mset_commute)
  show "sorted (map luminance [(0, 0, 0), (10, 10, 10), (128, 128, 128), (245, 245, 245), (255, 255, 255)])"
    by (simp add: luminance_def)
  show "distinct (map luminance [(0, 0, 0), (10, 10, 10), (128, 128, 128), (245, 245, 245), (255, 255, 255)])"
    by (simp add: luminance_def)
qed

subsection \<open>The writers\<close>

lemma lookup_cases:
  "lookup palette key = Inl e \<longleftrightarrow> map_of palette key = None \<and> e = KeyError key"
  "lookup palette key = Inr v \<longleftrightarrow> map_of palette key = Some v"
  by (auto simp: lookup_def split: option.splits)

lemma main_colors_Inl:
  assumes "main_colors palette = Inl e"
  shows "\<exists>k \<in> {''background'', ''foreground'', ''foreground-alt''}.
           map_of palette k = None \<and> e = KeyError k"
  using assms by (auto simp: main_colors_def lookup_cases split: sum.splits)

lemma main_colors_Inr:
  assumes "main_colors palette = Inr items"
  shows "\<exists>a b c. map_of palette ''background'' = Some a \<and> map_of palette ''foreground'' = Some b
           \<and> map_of palette ''foreground-alt'' = Some c
           \<and> items = [(''; main colors'', None), (''background'', Some a), (''foreground'', Some b),
                       (''foreground-alt'', Some c), (nl @ ''; shades'', None)]"
  using assms by (auto simp: main_colors_def lookup_cases split: sum.splits)

lemma value_in_palette:
  assumes "map_of palette k = Some v" "list_all interpolation_ok (map snd palette)"
  shows "interpolation_ok v"
proof -
  have "(k, v) \<in> set palette" using assms(1) by (rule map_of_SomeD)
  then show ?thesis using assms(2) by (auto simp: list_all_iff)
qed

lemma config_set_ok:
  assumes "interpolation_ok v"
  shows "config_set key (Some v) config = Inr (AList.update key (Some v) config)"
  using assms by (simp add: config_set_def)

lemma copy_shades_Inr:
  assumes "copy_shades ks palette config = Inr config'" "i \<in> set ks"
  shows "map_of palette (''shade'' @ str_int i) \<noteq> None"
  using assms
proof (induction ks arbitrary: config)
  case Nil
  then show ?case by simp
next
  case (Cons k ks)
  then show ?case by (auto simp: lookup_cases split: sum.splits)
qed

lemma copy_shades_KeyError:
  assumes "list_all interpolation_ok (map snd palette)"
    and "\<exists>i \<in> set ks. map_of palette (''shade'' @ str_int i) = None"
  shows "\<exists>i \<in> set ks. map_of palette (''shade'' @ str_int i) = None
           \<and> copy_shades ks palette config = Inl (KeyError (''shade'' @ str_int i))"
  using assms(2)
proof (induction ks arbitrary: config)
  case Nil
  then show ?case by simp
next
  case (Cons k ks)
  show ?case
  proof (cases "map_of palette (''shade'' @ str_int k)")
    case None
    then have "copy_shades (k # ks) palette config = Inl (KeyError (''shade'' @ str_int k))"
      by (simp add: lookup_def)
    with None show ?thesis by auto
  next
    case (Some v)
    then have ok: "interpolation_ok v" using assms(1) by (rule value_in_palette)
    from Some Cons.prems have "\<exists>i \<in> set ks. map_of palette (''shade'' @ str_int i) = None" by auto
    from Cons.IH [OF this, of "AList.update (''shade'' @ str_int k) (Some v) config"]
    show ?thesis using Some ok by (auto simp: lookup_def config_set_ok)
  qed
qed

lemma shade_key_of:
  assumes "key \<in> set [''shade1'', ''shade2'', ''shade3'', ''shade4'', ''shade5'', ''shade6'', ''shade7'', ''shade8'']"
  shows "\<exists>i \<in> set [1..8]. key = ''shade'' @ str_int i"
proof -
  have u: "[1..8] = [1, 2, 3, 4, 5, 6, 7, 8 :: int]" by (simp add: upto_rec1)
  show ?thesis unfolding u using assms by (auto simp: str_int_digit)
qed

lemma shade_key_in:
  assumes "i \<in> set [1..8]"
  shows "''shade'' @ str_int i \<in> set palette_keys"
proof -
  have u: "[1..8] = [1, 2, 3, 4, 5, 6, 7, 8 :: int]" by (simp add: upto_rec1)
  show ?thesis using assms unfolding u by (auto simp: str_int_digit palette_keys_def)
qed

lemma palette_keys_split:
  assumes "key \<in> set palette_keys"
  shows "key \<in> {''background'', ''foreground'', ''foreground-alt''}
       \<or> (\<exists>i \<in> set [1..8]. key = ''shade'' @ str_int i)"
proof -
  have "key \<in> {''background'', ''foreground'', ''foreground-alt''}
        \<or> key \<in> set [''shade1'', ''shade2'', ''shade3'', ''shade4'', ''shade5'', ''shade6'', ''shade7'', ''shade8'']"
    using assms by (auto simp: palette_keys_def)
  then show ?thesis using shade_key_of by blast
qed

lemma save_ini_KeyError:
  assumes "palette \<noteq> []" "key \<in> set palette_keys" "map_of palette key = None"
    and ok: "list_all interpolation_ok (map snd palette)"
  shows "\<exists>k \<in> set palette_keys. map_of palette k = None
           \<and> save_palette_to_ini (Some palette) path w = (Inl (KeyError k), w)"
proof (cases "main_colors palette")
  case (Inl e)
  from main_colors_Inl [OF this] obtain k where
    k: "k \<in> {''background'', ''foreground'', ''foreground-alt''}" "map_of palette k = None" "e = KeyError k"
    by blast
  have "k \<in> set palette_keys" using k(1) by (auto simp: palette_keys_def)
  moreover have "save_palette_to_ini (Some palette) path w = (Inl (KeyError k), w)"
    using Inl assms(1) k(3) by (simp add: save_palette_to_ini_def)
  ultimately show ?thesis using k(2) by blast
next
  case (Inr items)
  from main_colors_Inr [OF this] obtain a b c where
    v: "map_of palette ''background'' = Some a" "map_of palette ''foreground'' = Some b"
       "map_of palette ''foreground-alt'' = Some c"
    and items: "items = [(''; main colors'', None), (''background'', Some a), (''foreground'', Some b),
                       (''foreground-alt'', Some c), (nl @ ''; shades'', None)]"
    by blast
  have oka: "interpolation_ok a" "interpolation_ok b" "interpolation_ok c"
    using v ok by (auto intro: value_in_palette)
  obtain config where rd: "read_dict items [] = Inr config"
    unfolding items using oka by (simp add: config_set_def)
  have "key \<notin> {''background'', ''foreground'', ''foreground-alt''}" using v assms(3) by auto
  then have "\<exists>i \<in> set [1..8]. map_of palette (''shade'' @ str_int i) = None"
    using palette_keys_split [OF assms(2)] assms(3) by blast
  from copy_shades_KeyError [OF ok this, of config] obtain i where
    i: "i \<in> set [1..8]" "map_of palette (''shade'' @ str_int i) = None"
       "copy_shades [1..8] palette config = Inl (KeyError (''shade'' @ str_int i))"
    by blast
  have "save_palette_to_ini (Some palette) path w = (Inl (KeyError (''shade'' @ str_int i)), w)"
    using Inr rd i(3) assms(1) by (simp add: save_palette_to_ini_def)
  then show ?thesis using i(2) shade_key_in [OF i(1)] by blast
qed

lemma set_drop_escaped: "set (drop_escaped v) \<subseteq> set v"
  by (induction v rule: drop_escaped.induct) auto

lemma match_key_rest:
  assumes "match_key s = Some rest"
  shows "set rest \<subseteq> set s"
proof -
  have "rest = drop 2 (dropWhile (\<lambda>c. c \<noteq> CHR '')'') (drop 2 s))"
    using assms by (auto simp: match_key_def Let_def split: if_splits)
  then have "set rest \<subseteq> set (dropWhile (\<lambda>c. c \<noteq> CHR '')'') (drop 2 s))"
    by (simp add: set_drop_subset)
  also have "\<dots> \<subseteq> set (drop 2 s)" by (auto dest: set_dropWhileD)
  also have "\<dots> \<subseteq> set s" by (rule set_drop_subset)
  finally show ?thesis .
qed

lemma set_drop_keys: "set (drop_keys v) \<subseteq> set v"
proof (induction v rule: drop_keys.induct)
  case 1
  then show ?case by simp
next
  case (2 c cs)
  show ?case
  proof (cases "match_key (c # cs)")
    case None
    then show ?thesis using 2 by auto
  next
    case (Some rest)
    then show ?thesis using 2 match_key_rest [OF Some] by auto
  qed
qed

lemma no_percent_ok:
  assumes "CHR ''%'' \<notin> set v"
  shows "interpolation_ok v"
  using assms set_drop_keys [of "drop_escaped v"] set_drop_escaped [of v]
  by (auto simp: interpolation_ok_def)

subsection \<open>Evaluation of the examples\<close>

lemmas eval_color = tweak_saturation_def int_channels_def saturated_rgb_def rgb_to_hls_def
  hls_to_rgb_def v_hls_def py_int_def Let_def frac_def

lemmas eval_hex = hex_color_def format_02x_byte digit_char_def center_hex_def

lemma center_hex_examples:
  "center_hex (0, 0, 0) = ''#000000''" "center_hex (245, 245, 245) = ''#f5f5f5''"
  "center_hex (255, 255, 255) = ''#ffffff''"
  by (simp_all add: eval_hex int_channels_def py_int_def)

lemma compose_palette_example:
  "compose_palette example_centers =
       Inr [(''background'', ''#0a141e''), (''foreground'', ''#ffffff''),
            (''foreground-alt'', ''#f5f5f5''), (''shade8'', ''#a27057''),
            (''shade7'', ''#b56a44''), (''shade6'', ''#c86432''), (''shade5'', ''#da5d1f''),
            (''shade4'', ''#ed570c''), (''shade3'', ''#fa5300''), (''shade2'', ''#fa5300''),
            (''shade1'', ''#fa5300'')]"
  by (simp add: example_centers_def compose_palette_eq luminance_def shades_of_def
        eval_color eval_hex)

lemma imread_examples:
  "cvtColor_BGR2RGB (imread example_decode example_world ''five.png'') = Inr five_color_image"
  "cvtColor_BGR2RGB (imread example_decode example_world ''solid.png'')
     = Inr (map (map (\<lambda>p. (10, 20, 30))) solid_image)"
  "imread example_decode example_world ''tiny.png'' = Some tiny_image"
  by (simp_all add: imread_def example_world_def example_decode_def cvtColor_BGR2RGB_def
        five_color_image_def solid_image_def tiny_image_def)

lemma example_lloyd_five:
  "example_lloyd 5 (reshape five_color_image)
     = [(255, 255, 255), (128, 128, 128), (10, 10, 10), (245, 245, 245), (0, 0, 0)]"
  by code_simp

lemma example_lloyd_solid:
  "example_lloyd 5 (reshape (map (map (\<lambda>p. (10, 20, 30))) solid_image))
     = [(10, 20, 30), (10, 20, 30), (10, 20, 30), (10, 20, 30), (10, 20, 30)]"
  by code_simp

lemma card_examples:
  "card (set (reshape five_color_image)) = 5"
  "card (set (reshape (map (map (\<lambda>p. (10, 20, 30))) solid_image))) = 1"
  "length (reshape (map (map (\<lambda>p. (10, 20, 30))) solid_image)) = 16"
  by code_simp+

lemma compose_palette_five:
  "compose_palette [(255, 255, 255), (128, 128, 128), (10, 10, 10), (245, 245, 245), (0, 0, 0)]
     = Inr [(''background'', ''#000000''), (''foreground'', ''#ffffff''),
            (''foreground-alt'', ''#f5f5f5''), (''shade8'', ''#0a0a0a''),
            (''shade7'', ''#0a0a0a''), (''shade6'', ''#0a0a0a''), (''shade5'', ''#0a0a0a''),
            (''shade4'', ''#0a0a0a''), (''shade3'', ''#0a0a0a''), (''shade2'', ''#0a0a0a''),
            (''shade1'', ''#0a0a0a'')]"
  by (simp add: compose_palette_eq luminance_def shades_of_def eval_color eval_hex)

lemma compose_palette_solid:
  "compose_palette [(10, 20, 30), (10, 20, 30), (10, 20, 30), (10, 20, 30), (10, 20, 30)]
     = Inr [(''background'', ''#0a141e''), (''foreground'', ''#0a141e''),
            (''foreground-alt'', ''#0a141e''), (''shade8'', ''#0f1419''),
            (''shade7'', ''#0c141b''), (''shade6'', ''#0a141e''), (''shade5'', ''#071420''),
            (''shade4'', ''#051423''), (''shade3'', ''#021425''), (''shade2'', ''#001428''),
            (''shade1'', ''#001428'')]"
  by (simp add: compose_palette_eq luminance_def shades_of_def eval_color eval_hex)

subsection \<open>The pipeline on the example images\<close>

lemma files_makedirs:
  assumes "makedirs p w = Inr w1"
  shows "files w1 = files w"
  using assms by (auto simp: makedirs_def split: if_splits)

lemma extract_colors_files:
  assumes "files w1 = files w"
  shows "extract_colors decode lloyd w1 image_path = extract_colors decode lloyd w image_path"
  using assms by (simp add: extract_colors_def imread_def)

lemma extract_colors_few_samples:
  assumes "imread decode w image_path = Some bgr" and "concat bgr \<noteq> []"
    and "length (concat bgr) < 5"
  shows "extract_colors decode lloyd w image_path
           = Inl (ValueError (''n_samples='' @ str_nat (length (concat bgr))
                              @ '' should be >= n_clusters='' @ str_nat 5 @ ''.''))"
proof -
  have c: "concat (map (map (\<lambda>(b, g, r). (r, g, b))) bgr) = map (\<lambda>(b, g, r). (r, g, b)) (concat bgr)"
    by (simp add: map_concat)
  show ?thesis
    using assms by (simp add: extract_colors_def cvtColor_BGR2RGB_def reshape_def KMeans_fit_def c)
qed

lemma extract_colors_solid:
  "extract_colors example_decode example_lloyd example_world ''solid.png''
     = Inr [(''background'', ''#0a141e''), (''foreground'', ''#0a141e''),
            (''foreground-alt'', ''#0a141e''), (''shade8'', ''#0f1419''),
            (''shade7'', ''#0c141b''), (''shade6'', ''#0a141e''), (''shade5'', ''#071420''),
            (''shade4'', ''#051423''), (''shade3'', ''#021425''), (''shade2'', ''#001428''),
            (''shade1'', ''#001428'')]"
  by (simp add: extract_colors_def imread_examples KMeans_fit_def card_examples
        example_lloyd_solid compose_palette_solid)


lemma makedirs_out:
  "makedirs ''out'' example_world = Inr (example_world\<lparr>dirs := {''.'', ''out''}\<rparr>)"
  by (auto simp: makedirs_def ancestors_def example_world_def)

lemma write_out:
  assumes "dirs w = {''.'', ''out''}"
  shows "write_file ''out/out.ini'' content w = Inr (w\<lparr>files := (files w)(''out/out.ini'' \<mapsto> content)\<rparr>)"
    and "write_file ''out/out.rasi'' content w = Inr (w\<lparr>files := (files w)(''out/out.rasi'' \<mapsto> content)\<rparr>)"
  using assms by (simp_all add: write_file_def dirname_def)

lemma upto_1_8: "[1..8] = [1, 2, 3, 4, 5, 6, 7, 8 :: int]"
  by (simp add: upto_rec1)

lemma hex_value_ok: "interpolation_ok (CHR ''#'' # v)" if "CHR ''%'' \<notin> set v"
  using that by (intro no_percent_ok) simp

lemma main_solid:
  "fst (main example_decode example_lloyd ''solid.png'' ''out'' example_world) = Inr ()"
proof -
  have ex: "path_exists example_world ''solid.png''"
    by (simp add: path_exists_def example_world_def)
  have ini: "fst (save_palette_to_ini (Some [(''background'', ''#0a141e''), (''foreground'', ''#0a141e''),
            (''foreground-alt'', ''#0a141e''), (''shade8'', ''#0f1419''),
            (''shade7'', ''#0c141b''), (''shade6'', ''#0a141e''), (''shade5'', ''#071420''),
            (''shade4'', ''#051423''), (''shade3'', ''#021425''), (''shade2'', ''#001428''),
            (''shade1'', ''#001428'')]) ''out/out.ini'' w) = Inr ()
     \<and> dirs (snd (save_palette_to_ini (Some [(''background'', ''#0a141e''), (''foreground'', ''#0a141e''),
            (''foreground-alt'', ''#0a141e''), (''shade8'', ''#0f1419''),
            (''shade7'', ''#0c141b''), (''shade6'', ''#0a141e''), (''shade5'', ''#071420''),
            (''shade4'', ''#051423''), (''shade3'', ''#021425''), (''shade2'', ''#001428''),
            (''shade1'', ''#001428'')]) ''out/out.ini'' w)) = dirs w"
    if "dirs w = {''.'', ''out''}" for w
    by (simp add: save_palette_to_ini_def main_colors_def lookup_def config_set_def hex_value_ok
          upto_1_8 str_int_digit write_out [OF that] print_def)
  have rasi: "fst (save_palette_to_rasi (Some [(''background'', ''#0a141e''), (''foreground'', ''#0a141e''),
            (''foreground-alt'', ''#0a141e''), (''shade8'', ''#0f1419''),
            (''shade7'', ''#0c141b''), (''shade6'', ''#0a141e''), (''shade5'', ''#071420''),
            (''shade4'', ''#051423''), (''shade3'', ''#021425''), (''shade2'', ''#001428''),
            (''shade1'', ''#001428'')]) ''out/out.rasi'' w) = Inr ()"
    if "dirs w = {''.'', ''out''}" for w
    by (simp add: save_palette_to_rasi_def rasi_content_def lookup_def write_out [OF that])
  define w1 where "w1 = example_world\<lparr>dirs := {''.'', ''out''}\<rparr>"
  have d1: "dirs w1 = {''.'', ''out''}" by (simp add: w1_def)
  have e: "extract_colors example_decode example_lloyd w1 ''solid.png''
      = extract_colors example_decode example_lloyd example_world ''solid.png''"
    by (rule extract_colors_files) (simp add: w1_def)
  obtain u w2 where s: "save_palette_to_ini (Some [(''background'', ''#0a141e''), (''foreground'', ''#0a141e''),
            (''foreground-alt'', ''#0a141e''), (''shade8'', ''#0f1419''),
            (''shade7'', ''#0c141b''), (''shade6'', ''#0a141e''), (''shade5'', ''#071420''),
            (''shade4'', ''#051423''), (''shade3'', ''#021425''), (''shade2'', ''#001428''),
            (''shade1'', ''#001428'')]) ''out/out.ini'' w1 = (u, w2)"
    by (meson surj_pair)
  have u: "u = Inr ()" and d2: "dirs w2 = {''.'', ''out''}" using ini [OF d1] s d1 by simp_all
  show ?thesis
    using ex rasi [OF d2]
    by (simp add: main_def makedirs_out e extract_colors_solid path_join_def w1_def [symmetric] s u)
qed

subsection \<open>The encoding of any value\<close>









subsection \<open>The errors of the INI writer and the text of the RASI writer\<close>

lemma config_set_Inl:
  assumes "config_set key v config = Inl e"
  shows "\<exists>msg. e = ValueError msg"
  using assms by (auto simp: config_set_def interpolation_error_def split: option.splits if_splits)

lemma read_dict_Inl:
  assumes "read_dict items config = Inl e"
  shows "\<exists>msg. e = ValueError msg"
  using assms
proof (induction items arbitrary: config)
  case Nil
  then show ?case by simp
next
  case (Cons kv items)
  obtain key v where kv: "kv = (key, v)" by (cases kv)
  show ?case
  proof (cases "config_set key v config")
    case (Inl e')
    then have "e' = e" using Cons.prems by (simp add: kv)
    then show ?thesis using config_set_Inl [OF Inl] by simp
  next
    case (Inr config')
    then have "read_dict items config' = Inl e" using Cons.prems by (simp add: kv)
    then show ?thesis by (rule Cons.IH)
  qed
qed

lemma copy_shades_Inl:
  assumes "copy_shades ks palette config = Inl e"
  shows "(\<exists>i \<in> set ks. map_of palette (''shade'' @ str_int i) = None
             \<and> e = KeyError (''shade'' @ str_int i))
         \<or> (\<exists>msg. e = ValueError msg)"
  using assms
proof (induction ks arbitrary: config)
  case Nil
  then show ?case by simp
next
  case (Cons k ks)
  show ?case
  proof (cases "map_of palette (''shade'' @ str_int k)")
    case None
    then have "e = KeyError (''shade'' @ str_int k)" using Cons.prems by (simp add: lookup_def)
    with None show ?thesis by auto
  next
    case (Some v)
    show ?thesis
    proof (cases "config_set (''shade'' @ str_int k) (Some v) config")
      case (Inl e')
      then have "e' = e" using Cons.prems Some by (simp add: lookup_def)
      then show ?thesis using config_set_Inl [OF Inl] by simp
    next
      case (Inr config')
      then have "copy_shades ks palette config' = Inl e"
        using Cons.prems Some by (simp add: lookup_def)
      from Cons.IH [OF this] show ?thesis by auto
    qed
  qed
qed

lemma save_ini_error:
  assumes "palette \<noteq> []" "key \<in> set palette_keys" "map_of palette key = None"
  shows "\<exists>e. save_palette_to_ini (Some palette) path w = (Inl e, w)
           \<and> ((\<exists>k \<in> set palette_keys. map_of palette k = None \<and> e = KeyError k)
                \<or> (\<exists>msg. e = ValueError msg))"
proof (cases "main_colors palette")
  case (Inl e)
  from main_colors_Inl [OF this] obtain k where
    k: "k \<in> {''background'', ''foreground'', ''foreground-alt''}" "map_of palette k = None" "e = KeyError k"
    by blast
  have "k \<in> set palette_keys" using k(1) by (auto simp: palette_keys_def)
  moreover have "save_palette_to_ini (Some palette) path w = (Inl e, w)"
    using Inl assms(1) by (simp add: save_palette_to_ini_def)
  ultimately show ?thesis using k(2,3) by blast
next
  case (Inr items)
  note mc = this
  show ?thesis
  proof (cases "read_dict items []")
    case (Inl e)
    have "save_palette_to_ini (Some palette) path w = (Inl e, w)"
      using Inl assms(1) mc by (simp add: save_palette_to_ini_def)
    then show ?thesis using read_dict_Inl [OF Inl] by blast
  next
    case (Inr config)
    note rd = this
    show ?thesis
    proof (cases "copy_shades [1..8] palette config")
      case (Inl e)
      have s: "save_palette_to_ini (Some palette) path w = (Inl e, w)"
        using Inl assms(1) mc rd by (simp add: save_palette_to_ini_def)
      from copy_shades_Inl [OF Inl] show ?thesis
      proof
        assume "\<exists>i \<in> set [1..8]. map_of palette (''shade'' @ str_int i) = None
                  \<and> e = KeyError (''shade'' @ str_int i)"
        then obtain i where i: "i \<in> set [1..8]" "map_of palette (''shade'' @ str_int i) = None"
          "e = KeyError (''shade'' @ str_int i)" by blast
        show ?thesis using s i(2,3) shade_key_in [OF i(1)] by blast
      next
        assume "\<exists>msg. e = ValueError msg"
        then show ?thesis using s by blast
      qed
    next
      case (Inr config')
      have "key \<notin> {''background'', ''foreground'', ''foreground-alt''}"
        using main_colors_Inr [OF mc] assms(3) by auto
      then obtain i where "i \<in> set [1..8]" "key = ''shade'' @ str_int i"
        using palette_keys_split [OF assms(2)] by blast
      then have False using copy_shades_Inr [OF Inr] assms(3) by blast
      then show ?thesis ..
    qed
  qed
qed

lemma files_write_file:
  assumes "write_file path content w = Inr w'"
  shows "files w' path = Some content"
  using assms by (auto simp: write_file_def split: if_splits)

lemma rasi_written:
  assumes "palette \<noteq> []" "map_of palette ''background'' = Some bg" "map_of palette ''foreground'' = Some fg"
  shows "\<exists>content. content =
             ''/* colors */'' @ nl @ nl @ ''* {'' @ nl
             @ ''  al:    #00000000;'' @ nl
             @ ''  bg:    '' @ bg @ ''FF;'' @ nl
             @ ''  bg1:   '' @ (case map_of palette ''shade1'' of None \<Rightarrow> ''#000000'' | Some v \<Rightarrow> v) @ ''FF;'' @ nl
             @ ''  bg2:   '' @ (case map_of palette ''shade2'' of None \<Rightarrow> ''#000000'' | Some v \<Rightarrow> v) @ ''FF;'' @ nl
             @ ''  bg3:   '' @ (case map_of palette ''shade3'' of None \<Rightarrow> ''#000000'' | Some v \<Rightarrow> v) @ ''FF;'' @ nl
             @ ''  bg4:   '' @ (case map_of palette ''shade4'' of None \<Rightarrow> ''#000000'' | Some v \<Rightarrow> v) @ ''FF;'' @ nl
             @ ''  fg:    '' @ fg @ ''FF;'' @ nl
             @ ''}'' @ nl
          \<and> rasi_content palette = Inr content
          \<and> (\<forall>w'. write_file path content w = Inr w' \<longrightarrow>
                save_palette_to_rasi (Some palette) path w
                  = (Inr (), print (''RASI palette saved to '' @ path) w')
                \<and> files w' path = Some content)"
  using assms
  by (auto simp: rasi_content_def lookup_def get_default_def save_palette_to_rasi_def
        files_write_file)

lemma py_repr_example: "py_repr ''50%'' = [CHR 0x27] @ ''50%'' @ [CHR 0x27]"
  by (simp add: py_repr_def repr_char_def Let_def)

lemma interpolation_example:
  "\<not> interpolation_ok ''50%''"
  "interpolation_error ''50%''
     = ValueError (''invalid interpolation syntax in '' @ [CHR 0x27] @ ''50%'' @ [CHR 0x27]
                   @ '' at position 2'')"
  by (simp_all add: interpolation_ok_def interpolation_error_def match_key_def py_repr_example
        str_nat.simps digit_char_def)

section \<open>The claims\<close>

text \<open>
  C1. For an image that decodes and holds at least five distinct pixel colours,
  \<open>extract_colors\<close> returns a palette with exactly the eleven keys background,
  foreground, foreground-alt and shade1 to shade8, each with a value \<open>#rrggbb\<close> of six
  lowercase hexadecimal digits. The clustering is taken to return five centroids with
  channels in [0, 255], as means of 8-bit pixels are.
\<close>

theorem extract_colors_palette:
  assumes "cvtColor_BGR2RGB (imread decode w image_path) = Inr img"
    and "5 \<le> card (set (reshape img))"
    and "length (lloyd 5 (reshape img)) = 5"
    and "list_all in_gamut (lloyd 5 (reshape img))"
  shows "\<exists>palette. extract_colors decode lloyd w image_path = Inr palette
           \<and> distinct (map fst palette) \<and> set (map fst palette) = set palette_keys
           \<and> list_all is_hex_color (map snd palette)"
proof -
  have "card (set (reshape img)) \<le> length (reshape img)" by (rule card_length)
  then have "KMeans_fit lloyd 5 (reshape img) = Inr (lloyd 5 (reshape img))"
    using assms(2) by (simp add: KMeans_fit_def)
  then have "extract_colors decode lloyd w image_path = compose_palette (lloyd 5 (reshape img))"
    using assms(1) by (simp add: extract_colors_def)
  then show ?thesis using compose_palette_wellformed [OF assms(3,4)] by simp
qed

theorem extract_colors_palette_witness:
  "cvtColor_BGR2RGB (imread example_decode example_world ''five.png'') = Inr five_color_image
   \<and> 5 \<le> card (set (reshape five_color_image))
   \<and> length (example_lloyd 5 (reshape five_color_image)) = 5
   \<and> list_all in_gamut (example_lloyd 5 (reshape five_color_image))
   \<and> (\<exists>palette. extract_colors example_decode example_lloyd example_world ''five.png'' = Inr palette
         \<and> palette = [(''background'', ''#000000''), (''foreground'', ''#ffffff''),
            (''foreground-alt'', ''#f5f5f5''), (''shade8'', ''#0a0a0a''),
            (''shade7'', ''#0a0a0a''), (''shade6'', ''#0a0a0a''), (''shade5'', ''#0a0a0a''),
            (''shade4'', ''#0a0a0a''), (''shade3'', ''#0a0a0a''), (''shade2'', ''#0a0a0a''),
            (''shade1'', ''#0a0a0a'')]
         \<and> distinct (map fst palette) \<and> set (map fst palette) = set palette_keys
         \<and> list_all is_hex_color (map snd palette))"
proof -
  have h1: "cvtColor_BGR2RGB (imread example_decode example_world ''five.png'') = Inr five_color_image"
    by (rule imread_examples)
  have h2: "5 \<le> card (set (reshape five_color_image))" by (simp add: card_examples)
  have h3: "length (example_lloyd 5 (reshape five_color_image)) = 5"
    by (simp add: example_lloyd_five)
  have h4: "list_all in_gamut (example_lloyd 5 (reshape five_color_image))"
    by (simp add: example_lloyd_five in_gamut_def)
  have e: "extract_colors example_decode example_lloyd example_world ''five.png''
      = Inr [(''background'', ''#000000''), (''foreground'', ''#ffffff''),
            (''foreground-alt'', ''#f5f5f5''), (''shade8'', ''#0a0a0a''),
            (''shade7'', ''#0a0a0a''), (''shade6'', ''#0a0a0a''), (''shade5'', ''#0a0a0a''),
            (''shade4'', ''#0a0a0a''), (''shade3'', ''#0a0a0a''), (''shade2'', ''#0a0a0a''),
            (''shade1'', ''#0a0a0a'')]"
    using h2 card_length [of "reshape five_color_image"]
    by (simp add: extract_colors_def h1 KMeans_fit_def example_lloyd_five compose_palette_five)
  show ?thesis
    using extract_colors_palette [where lloyd = example_lloyd, OF h1 h2 h3 h4] h1 h2 h3 h4
    unfolding e by simp
qed


text \<open>
  C2. The eight factors 0.5, 0.75, 1, 1.25, 1.5, 1.75, 2, 2.5 are applied to the centroid
  at index 1 of the luminance order, and the results are stored under inverted keys: the
  shade of factor 0.5 under \<open>shade8\<close>, of factor 0.75 under \<open>shade7\<close>, and so on down to
  the shade of factor 2.5 under \<open>shade1\<close>.
\<close>

theorem shade_keys_inverted:
  assumes "length cs = 5"
  shows "\<exists>palette. compose_palette cs = Inr palette
     \<and> map_of palette ''shade8'' = Some (hex_color (tweak_saturation (sort_key luminance cs ! 1) (1 / 2)))
     \<and> map_of palette ''shade7'' = Some (hex_color (tweak_saturation (sort_key luminance cs ! 1) (3 / 4)))
     \<and> map_of palette ''shade6'' = Some (hex_color (tweak_saturation (sort_key luminance cs ! 1) 1))
     \<and> map_of palette ''shade5'' = Some (hex_color (tweak_saturation (sort_key luminance cs ! 1) (5 / 4)))
     \<and> map_of palette ''shade4'' = Some (hex_color (tweak_saturation (sort_key luminance cs ! 1) (3 / 2)))
     \<and> map_of palette ''shade3'' = Some (hex_color (tweak_saturation (sort_key luminance cs ! 1) (7 / 4)))
     \<and> map_of palette ''shade2'' = Some (hex_color (tweak_saturation (sort_key luminance cs ! 1) 2))
     \<and> map_of palette ''shade1'' = Some (hex_color (tweak_saturation (sort_key luminance cs ! 1) (5 / 2)))"
  using compose_palette_eq [of cs] assms by (simp add: shades_of_def)

theorem shade_keys_inverted_witness:
  "length example_centers = 5
   \<and> compose_palette example_centers =
       Inr [(''background'', ''#0a141e''), (''foreground'', ''#ffffff''),
            (''foreground-alt'', ''#f5f5f5''), (''shade8'', ''#a27057''),
            (''shade7'', ''#b56a44''), (''shade6'', ''#c86432''), (''shade5'', ''#da5d1f''),
            (''shade4'', ''#ed570c''), (''shade3'', ''#fa5300''), (''shade2'', ''#fa5300''),
            (''shade1'', ''#fa5300'')]
   \<and> hex_color (tweak_saturation (sort_key luminance example_centers ! 1) (1 / 2)) = ''#a27057''
   \<and> hex_color (tweak_saturation (sort_key luminance example_centers ! 1) (5 / 2)) = ''#fa5300''"
proof -
  have h: "length example_centers = 5" by (simp add: example_centers_def)
  note e = compose_palette_example
  from shade_keys_inverted [OF h] obtain palette where
    p: "compose_palette example_centers = Inr palette"
    and s8: "map_of palette ''shade8''
             = Some (hex_color (tweak_saturation (sort_key luminance example_centers ! 1) (1 / 2)))"
    and s1: "map_of palette ''shade1''
             = Some (hex_color (tweak_saturation (sort_key luminance example_centers ! 1) (5 / 2)))"
    by blast
  from p e have "palette = [(''background'', ''#0a141e''), (''foreground'', ''#ffffff''),
            (''foreground-alt'', ''#f5f5f5''), (''shade8'', ''#a27057''),
            (''shade7'', ''#b56a44''), (''shade6'', ''#c86432''), (''shade5'', ''#da5d1f''),
            (''shade4'', ''#ed570c''), (''shade3'', ''#fa5300''), (''shade2'', ''#fa5300''),
            (''shade1'', ''#fa5300'')]"
    by simp
  with s8 s1 h e show ?thesis by simp
qed





text \<open>
  C4, as the code has it. The clustering step counts samples, not distinct colours: for
  an image of fewer than five pixels it raises a ValueError (the program has no
  ClusteringError), which neither \<open>extract_colors\<close> nor \<open>main\<close> catches, so the run
  ends with status 1 and writes no file. A sample list of five or more pixels is never
  rejected.
\<close>

theorem few_pixels_raise:
  assumes "imread decode w image_path = Some bgr" and "concat bgr \<noteq> []"
    and "length (concat bgr) < 5"
  shows "extract_colors decode lloyd w image_path
           = Inl (ValueError (''n_samples='' @ str_nat (length (concat bgr))
                              @ '' should be >= n_clusters='' @ str_nat 5 @ ''.''))
       \<and> (\<exists>e. fst (main decode lloyd image_path output_dir w) = Inl e)
       \<and> exit_status (fst (main decode lloyd image_path output_dir w)) = 1
       \<and> files (snd (main decode lloyd image_path output_dir w)) = files w
       \<and> (\<forall>X. 5 \<le> length X \<longrightarrow> KMeans_fit lloyd 5 X = Inr (lloyd 5 X))"
proof -
  note e = extract_colors_few_samples [OF assms, of lloyd]
  have ex: "path_exists w image_path"
    using assms(1) by (auto simp: imread_def path_exists_def split: option.splits)
  have m: "(\<exists>e. fst (main decode lloyd image_path output_dir w) = Inl e)
       \<and> exit_status (fst (main decode lloyd image_path output_dir w)) = 1
       \<and> files (snd (main decode lloyd image_path output_dir w)) = files w"
  proof (cases "makedirs output_dir w")
    case (Inl err)
    then have "main decode lloyd image_path output_dir w = (Inl (OSError output_dir), w)"
      using ex by (auto simp: main_def makedirs_def split: if_splits)
    then show ?thesis by (simp add: exit_status_def)
  next
    case (Inr w1)
    have "extract_colors decode lloyd w1 image_path = extract_colors decode lloyd w image_path"
      using files_makedirs [OF Inr] by (rule extract_colors_files)
    then have "main decode lloyd image_path output_dir w
                 = (Inl (ValueError (''n_samples='' @ str_nat (length (concat bgr))
                              @ '' should be >= n_clusters='' @ str_nat 5 @ ''.'')), w1)"
      using ex Inr e by (simp add: main_def)
    then show ?thesis using files_makedirs [OF Inr] by (simp add: exit_status_def)
  qed
  show ?thesis using e m by (simp add: KMeans_fit_def)
qed

theorem few_pixels_raise_witness:
  "imread example_decode example_world ''tiny.png'' = Some tiny_image
   \<and> concat tiny_image \<noteq> [] \<and> length (concat tiny_image) < 5
   \<and> extract_colors example_decode example_lloyd example_world ''tiny.png''
       = Inl (ValueError ''n_samples=4 should be >= n_clusters=5.'')
   \<and> exit_status (fst (main example_decode example_lloyd ''tiny.png'' ''out'' example_world)) = 1
   \<and> files (snd (main example_decode example_lloyd ''tiny.png'' ''out'' example_world)) ''out/out.ini'' = None"
proof -
  have h1: "imread example_decode example_world ''tiny.png'' = Some tiny_image"
    by (rule imread_examples)
  have h2: "concat tiny_image \<noteq> []" by (simp add: tiny_image_def)
  have h3: "length (concat tiny_image) < 5" by (simp add: tiny_image_def)
  have n: "length (concat tiny_image) = 4" by (simp add: tiny_image_def)
  have s: "str_nat 4 = ''4''" "str_nat 5 = ''5''" by (simp_all add: str_nat.simps digit_char_def)
  show ?thesis
    using few_pixels_raise [OF h1 h2 h3, of example_lloyd "''out''"] h1 h2 h3
    by (simp add: n s example_world_def)
qed

text \<open>
  C4 as stated fails: a 4 by 4 image of one colour has one distinct colour and sixteen
  pixels; the clustering returns five equal centroids, \<open>extract_colors\<close> returns a
  palette and \<open>main\<close> returns normally.
\<close>

theorem few_distinct_colors_counterexample:
  "card (set (reshape solid_image)) = 1
   \<and> extract_colors example_decode example_lloyd example_world ''solid.png''
     = Inr [(''background'', ''#0a141e''), (''foreground'', ''#0a141e''),
            (''foreground-alt'', ''#0a141e''), (''shade8'', ''#0f1419''),
            (''shade7'', ''#0c141b''), (''shade6'', ''#0a141e''), (''shade5'', ''#071420''),
            (''shade4'', ''#051423''), (''shade3'', ''#021425''), (''shade2'', ''#001428''),
            (''shade1'', ''#001428'')]
   \<and> fst (main example_decode example_lloyd ''solid.png'' ''out'' example_world) = Inr ()"
proof -
  have "card (set (reshape solid_image)) = 1" by code_simp
  then show ?thesis by (simp add: extract_colors_solid main_solid)
qed


text \<open>
  C5, as the code has it. Of five centroids in ascending order of luminance, background
  encodes the one at index 0, foreground-alt the one at index 3 and foreground the one at
  index 4, so the luminances of these three centroids ascend. The palette holds their
  channels truncated to integers, which lowers a luminance by less than 1: for centroids
  with channels in [0, 255] the luminances of the three palette entries ascend up to that
  margin.
\<close>

theorem roles_by_luminance:
  assumes "length cs = 5"
  shows "\<exists>palette bg fa fg. compose_palette cs = Inr palette
     \<and> map_of palette ''background'' = Some bg \<and> bg = center_hex (sort_key luminance cs ! 0)
     \<and> map_of palette ''foreground-alt'' = Some fa \<and> fa = center_hex (sort_key luminance cs ! 3)
     \<and> map_of palette ''foreground'' = Some fg \<and> fg = center_hex (sort_key luminance cs ! 4)
     \<and> luminance (sort_key luminance cs ! 0) \<le> luminance (sort_key luminance cs ! 3)
     \<and> luminance (sort_key luminance cs ! 3) \<le> luminance (sort_key luminance cs ! 4)
     \<and> (list_all in_gamut cs \<longrightarrow>
          luminance (color_of_hex bg) < luminance (color_of_hex fa) + 1
        \<and> luminance (color_of_hex fa) < luminance (color_of_hex fg) + 1)"
proof -
  define centers where "centers = sort_key luminance cs"
  have l: "luminance (centers ! 0) \<le> luminance (centers ! 3)"
          "luminance (centers ! 3) \<le> luminance (centers ! 4)"
    using sorted_centers_luminance [of 0 3 cs] sorted_centers_luminance [of 3 4 cs] assms
    by (simp_all add: centers_def)
  have slack: "luminance (color_of_hex (center_hex (centers ! 0))) < luminance (color_of_hex (center_hex (centers ! 3))) + 1
        \<and> luminance (color_of_hex (center_hex (centers ! 3))) < luminance (color_of_hex (center_hex (centers ! 4))) + 1"
    if g: "list_all in_gamut cs"
  proof -
    have m: "centers ! i \<in> set cs" if "i < 5" for i
      using that assms sorted_center_in_set [of i cs] by (simp add: centers_def)
    have g0: "in_gamut (centers ! 0)" and g3: "in_gamut (centers ! 3)" and g4: "in_gamut (centers ! 4)"
      using g m [of 0] m [of 3] m [of 4] by (simp_all add: list_all_iff)
    show ?thesis
      using hex_luminance(1) [OF g0] hex_luminance [OF g3] hex_luminance(2) [OF g4] l
      by linarith
  qed
  show ?thesis
    using compose_palette_eq [of cs] assms l slack
    by (simp add: centers_def)
qed

theorem roles_by_luminance_witness:
  "length example_centers = 5 \<and> list_all in_gamut example_centers
   \<and> map_of [(''background'', ''#0a141e''), (''foreground'', ''#ffffff''),
            (''foreground-alt'', ''#f5f5f5'')] ''background''
       = Some (center_hex (sort_key luminance example_centers ! 0))
   \<and> luminance (color_of_hex ''#0a141e'') < luminance (color_of_hex ''#f5f5f5'') + 1
   \<and> luminance (color_of_hex ''#f5f5f5'') < luminance (color_of_hex ''#ffffff'') + 1"
proof -
  have h: "length example_centers = 5" by (simp add: example_centers_def)
  have g: "list_all in_gamut example_centers" by (simp add: example_centers_def in_gamut_def)
  note e = compose_palette_example
  from roles_by_luminance [OF h] obtain palette bg fa fg where
    p: "compose_palette example_centers = Inr palette"
    and m: "map_of palette ''background'' = Some bg" "map_of palette ''foreground-alt'' = Some fa"
      "map_of palette ''foreground'' = Some fg"
    and b: "bg = center_hex (sort_key luminance example_centers ! 0)"
    and l: "list_all in_gamut example_centers \<longrightarrow>
          luminance (color_of_hex bg) < luminance (color_of_hex fa) + 1
        \<and> luminance (color_of_hex fa) < luminance (color_of_hex fg) + 1"
    by blast
  from p e have "palette = [(''background'', ''#0a141e''), (''foreground'', ''#ffffff''),
            (''foreground-alt'', ''#f5f5f5''), (''shade8'', ''#a27057''),
            (''shade7'', ''#b56a44''), (''shade6'', ''#c86432''), (''shade5'', ''#da5d1f''),
            (''shade4'', ''#ed570c''), (''shade3'', ''#fa5300''), (''shade2'', ''#fa5300''),
            (''shade1'', ''#fa5300'')]"
    by simp
  with m have v: "bg = ''#0a141e''" "fa = ''#f5f5f5''" "fg = ''#ffffff''" by simp_all
  show ?thesis using h g l b unfolding v by simp
qed

text \<open>
  C5 as stated fails for the colours of the palette: the centroids (201, 200, 200) and
  (200, 200.5, 200) have the luminances 200.2126 and 200.3576, so the first becomes
  foreground-alt and the second foreground; truncated, foreground-alt \<open>#c9c8c8\<close> has the
  luminance 200.2126 and foreground \<open>#c8c8c8\<close> the luminance 200.
\<close>

theorem roles_by_luminance_counterexample:
  "compose_palette [(0, 0, 0), (50, 50, 50), (100, 100, 100), (201, 200, 200), (200, 401 / 2, 200)]
     = Inr [(''background'', ''#000000''), (''foreground'', ''#c8c8c8''),
            (''foreground-alt'', ''#c9c8c8''), (''shade8'', ''#323232''),
            (''shade7'', ''#323232''), (''shade6'', ''#323232''),
            (''shade5'', ''#323232''), (''shade4'', ''#323232''),
            (''shade3'', ''#323232''), (''shade2'', ''#323232''),
            (''shade1'', ''#323232'')]
   \<and> \<not> luminance (color_of_hex ''#c9c8c8'') \<le> luminance (color_of_hex ''#c8c8c8'')"
  by (simp add: compose_palette_eq luminance_def shades_of_def eval_color eval_hex
        color_of_hex_def hex_value_def)


text \<open>
  C6. When the clustering returns the five centroids (0,0,0), (255,255,255),
  (128,128,128), (10,10,10) and (245,245,245), in any order, the palette has background
  \<open>#000000\<close>, foreground-alt \<open>#f5f5f5\<close> and foreground \<open>#ffffff\<close>.
\<close>

theorem synthetic_five_centroids:
  assumes "mset cs = mset [(0, 0, 0), (255, 255, 255), (128, 128, 128), (10, 10, 10), (245, 245, 245)]"
  shows "\<exists>palette. compose_palette cs = Inr palette
           \<and> map_of palette ''background'' = Some ''#000000''
           \<and> map_of palette ''foreground-alt'' = Some ''#f5f5f5''
           \<and> map_of palette ''foreground'' = Some ''#ffffff''"
proof -
  have "size (mset cs) = 5" unfolding assms by simp
  then have len: "length cs = 5" by simp
  show ?thesis
    using compose_palette_eq [of cs] len
    by (simp add: sorted_five [OF assms] center_hex_examples shades_of_def)
qed

theorem synthetic_five_centroids_witness:
  "mset [(245, 245, 245), (0, 0, 0), (10, 10, 10), (255, 255, 255), (128, 128, 128 :: real)]
     = mset [(0, 0, 0), (255, 255, 255), (128, 128, 128), (10, 10, 10), (245, 245, 245)]
   \<and> (\<exists>palette.
         compose_palette [(245, 245, 245), (0, 0, 0), (10, 10, 10), (255, 255, 255), (128, 128, 128)]
           = Inr palette
         \<and> map_of palette ''background'' = Some ''#000000''
         \<and> map_of palette ''foreground-alt'' = Some ''#f5f5f5''
         \<and> map_of palette ''foreground'' = Some ''#ffffff'')"
proof -
  have h: "mset [(245, 245, 245), (0, 0, 0), (10, 10, 10), (255, 255, 255), (128, 128, 128 :: real)]
     = mset [(0, 0, 0), (255, 255, 255), (128, 128, 128), (10, 10, 10), (245, 245, 245)]"
    by (simp add: add_mset_commute)
  show ?thesis using synthetic_five_centroids [OF h] h by blast
qed

text \<open>
  C10. For a colour with channels in [0, 255] and any factor, so for each factor of the
  schedule, the channels that the HLS round trip returns for the clamped saturation lie
  in [0, 1], and \<open>tweak_saturation\<close> returns three integers in [0, 255], although it
  clamps nothing but the saturation.
\<close>

theorem tweak_saturation_in_range:
  assumes "in_gamut rgb"
  shows "(case saturated_rgb rgb factor of
            (r, g, b) \<Rightarrow> unit_interval r \<and> unit_interval g \<and> unit_interval b)
         \<and> byte_triple (tweak_saturation rgb factor)"
proof -
  obtain r g b where sat: "saturated_rgb rgb factor = (r, g, b)"
    by (cases "saturated_rgb rgb factor")
  show ?thesis
    using saturated_rgb_unit [OF assms sat] tweak_saturation_bytes [OF assms, of factor]
    by (simp add: sat)
qed

theorem tweak_saturation_in_range_witness:
  "in_gamut (200, 100, 50)
   \<and> list_all (\<lambda>factor. byte_triple (tweak_saturation (200, 100, 50) factor)) shade_factors
   \<and> tweak_saturation (200, 100, 50) (5 / 2) = (250, 83, 0)"
proof -
  have h: "in_gamut (200, 100, 50)" by (simp add: in_gamut_def)
  have t: "tweak_saturation (200, 100, 50) (5 / 2) = (250, 83, 0)" by (simp add: eval_color)
  show ?thesis
    using h t tweak_saturation_in_range [OF h] by (simp add: list_all_iff)
qed

text \<open>
  C7. When the image path does not exist, \<open>main\<close> prints
  \<open>Error: Image file '<path>' not found\<close>, exits with status 1, and leaves every file
  and directory as it was.
\<close>

theorem missing_image_exits:
  assumes "\<not> path_exists w image_path"
  shows "fst (main decode lloyd image_path output_dir w) = Inl (SystemExit 1)
       \<and> exit_status (fst (main decode lloyd image_path output_dir w)) = 1
       \<and> stdout (snd (main decode lloyd image_path output_dir w))
           = stdout w @ [''Error: Image file '' @ [CHR 0x27] @ image_path @ [CHR 0x27] @ '' not found'']
       \<and> files (snd (main decode lloyd image_path output_dir w)) = files w
       \<and> dirs (snd (main decode lloyd image_path output_dir w)) = dirs w"
  using assms by (simp add: main_def exit_status_def print_def)

theorem missing_image_exits_witness:
  "\<not> path_exists example_world ''./nope.png''
   \<and> fst (main example_decode example_lloyd ''./nope.png'' ''.'' example_world) = Inl (SystemExit 1)
   \<and> exit_status (fst (main example_decode example_lloyd ''./nope.png'' ''.'' example_world)) = 1
   \<and> stdout (snd (main example_decode example_lloyd ''./nope.png'' ''.'' example_world))
       = [''Error: Image file '' @ [CHR 0x27] @ ''./nope.png'' @ [CHR 0x27] @ '' not found'']
   \<and> files (snd (main example_decode example_lloyd ''./nope.png'' ''.'' example_world)) ''./out.ini'' = None
   \<and> files (snd (main example_decode example_lloyd ''./nope.png'' ''.'' example_world)) ''./out.rasi'' = None"
proof -
  have h: "\<not> path_exists example_world ''./nope.png''"
    by (simp add: path_exists_def example_world_def)
  show ?thesis
    using missing_image_exits [OF h, of example_decode example_lloyd "''.''"] h
    by (simp add: example_world_def exit_status_def)
qed


text \<open>
  C8. For an absent or empty palette both writers return normally and leave the world
  unchanged: no file is written, nothing is printed and no error is raised.
\<close>

theorem empty_palette_is_skipped:
  "save_palette_to_ini None path w = (Inr (), w)
   \<and> save_palette_to_ini (Some []) path w = (Inr (), w)
   \<and> save_palette_to_rasi None path w = (Inr (), w)
   \<and> save_palette_to_rasi (Some []) path w = (Inr (), w)"
  by (simp add: save_palette_to_ini_def save_palette_to_rasi_def)

text \<open>
  C9, as the code has it. For a palette that is not empty and lacks one of the eleven
  keys, \<open>save_palette_to_ini\<close> raises before it opens the output file, so the world is
  unchanged. The error is the KeyError of a missing key or the ValueError of the
  interpolation check on a value stored before the missing key is read; it is the
  KeyError whenever no value holds a percent sign, as no colour \<open>#rrggbb\<close> does. The
  RASI writer, given background and foreground, writes its file with \<open>#000000\<close> in the
  place of each of shade1 to shade4 that the palette lacks.
\<close>

theorem ini_missing_key_fails:
  assumes "palette \<noteq> []" and "key \<in> set palette_keys" and "map_of palette key = None"
  shows "(\<exists>e. save_palette_to_ini (Some palette) path w = (Inl e, w)
            \<and> ((\<exists>k \<in> set palette_keys. map_of palette k = None \<and> e = KeyError k)
                 \<or> (\<exists>msg. e = ValueError msg)))
       \<and> (list_all (\<lambda>v. CHR ''%'' \<notin> set v) (map snd palette) \<longrightarrow>
            (\<exists>k \<in> set palette_keys. map_of palette k = None
                \<and> save_palette_to_ini (Some palette) path w = (Inl (KeyError k), w)))
       \<and> (\<forall>bg fg. map_of palette ''background'' = Some bg \<and> map_of palette ''foreground'' = Some fg \<longrightarrow>
            (\<exists>content. content =
               ''/* colors */'' @ nl @ nl @ ''* {'' @ nl
               @ ''  al:    #00000000;'' @ nl
               @ ''  bg:    '' @ bg @ ''FF;'' @ nl
               @ ''  bg1:   '' @ (case map_of palette ''shade1'' of None \<Rightarrow> ''#000000'' | Some v \<Rightarrow> v) @ ''FF;'' @ nl
               @ ''  bg2:   '' @ (case map_of palette ''shade2'' of None \<Rightarrow> ''#000000'' | Some v \<Rightarrow> v) @ ''FF;'' @ nl
               @ ''  bg3:   '' @ (case map_of palette ''shade3'' of None \<Rightarrow> ''#000000'' | Some v \<Rightarrow> v) @ ''FF;'' @ nl
               @ ''  bg4:   '' @ (case map_of palette ''shade4'' of None \<Rightarrow> ''#000000'' | Some v \<Rightarrow> v) @ ''FF;'' @ nl
               @ ''  fg:    '' @ fg @ ''FF;'' @ nl
               @ ''}'' @ nl
             \<and> rasi_content palette = Inr content
             \<and> (\<forall>w'. write_file path' content w = Inr w' \<longrightarrow>
                   save_palette_to_rasi (Some palette) path' w
                     = (Inr (), print (''RASI palette saved to '' @ path') w')
                   \<and> files w' path' = Some content)))"
proof (intro conjI impI allI)
  show "\<exists>e. save_palette_to_ini (Some palette) path w = (Inl e, w)
            \<and> ((\<exists>k \<in> set palette_keys. map_of palette k = None \<and> e = KeyError k)
                 \<or> (\<exists>msg. e = ValueError msg))"
    using assms by (rule save_ini_error)
next
  assume "list_all (\<lambda>v. CHR ''%'' \<notin> set v) (map snd palette)"
  then have "list_all interpolation_ok (map snd palette)"
    by (auto simp: list_all_iff no_percent_ok)
  with assms show "\<exists>k \<in> set palette_keys. map_of palette k = None
                \<and> save_palette_to_ini (Some palette) path w = (Inl (KeyError k), w)"
    by (rule save_ini_KeyError)
next
  fix bg fg
  assume "map_of palette ''background'' = Some bg \<and> map_of palette ''foreground'' = Some fg"
  then show "\<exists>content. content =
               ''/* colors */'' @ nl @ nl @ ''* {'' @ nl
               @ ''  al:    #00000000;'' @ nl
               @ ''  bg:    '' @ bg @ ''FF;'' @ nl
               @ ''  bg1:   '' @ (case map_of palette ''shade1'' of None \<Rightarrow> ''#000000'' | Some v \<Rightarrow> v) @ ''FF;'' @ nl
               @ ''  bg2:   '' @ (case map_of palette ''shade2'' of None \<Rightarrow> ''#000000'' | Some v \<Rightarrow> v) @ ''FF;'' @ nl
               @ ''  bg3:   '' @ (case map_of palette ''shade3'' of None \<Rightarrow> ''#000000'' | Some v \<Rightarrow> v) @ ''FF;'' @ nl
               @ ''  bg4:   '' @ (case map_of palette ''shade4'' of None \<Rightarrow> ''#000000'' | Some v \<Rightarrow> v) @ ''FF;'' @ nl
               @ ''  fg:    '' @ fg @ ''FF;'' @ nl
               @ ''}'' @ nl
             \<and> rasi_content palette = Inr content
             \<and> (\<forall>w'. write_file path' content w = Inr w' \<longrightarrow>
                   save_palette_to_rasi (Some palette) path' w
                     = (Inr (), print (''RASI palette saved to '' @ path') w')
                   \<and> files w' path' = Some content)"
    using rasi_written [OF assms(1), of bg fg path' w] by simp
qed

theorem ini_missing_key_fails_witness:
  "two_color_palette \<noteq> [] \<and> ''shade1'' \<in> set palette_keys
   \<and> map_of two_color_palette ''shade1'' = None
   \<and> list_all (\<lambda>v. CHR ''%'' \<notin> set v) (map snd two_color_palette)
   \<and> save_palette_to_ini (Some two_color_palette) ''out.ini'' example_world
       = (Inl (KeyError ''foreground-alt''), example_world)
   \<and> fst (save_palette_to_rasi (Some two_color_palette) ''out.rasi'' example_world) = Inr ()
   \<and> files (snd (save_palette_to_rasi (Some two_color_palette) ''out.rasi'' example_world)) ''out.rasi''
       = Some (''/* colors */'' @ nl @ nl @ ''* {'' @ nl
             @ ''  al:    #00000000;'' @ nl
             @ ''  bg:    #000000FF;'' @ nl
             @ ''  bg1:   #000000FF;'' @ nl
             @ ''  bg2:   #000000FF;'' @ nl
             @ ''  bg3:   #000000FF;'' @ nl
             @ ''  bg4:   #000000FF;'' @ nl
             @ ''  fg:    #ffffffFF;'' @ nl
             @ ''}'' @ nl)"
proof -
  have h1: "two_color_palette \<noteq> []" by (simp add: two_color_palette_def)
  have h2: "''shade1'' \<in> set palette_keys" by (simp add: palette_keys_def)
  have h3: "map_of two_color_palette ''shade1'' = None" by (simp add: two_color_palette_def)
  have h4: "list_all (\<lambda>v. CHR ''%'' \<notin> set v) (map snd two_color_palette)"
    by (simp add: two_color_palette_def)
  have m: "map_of two_color_palette ''background'' = Some ''#000000''
           \<and> map_of two_color_palette ''foreground'' = Some ''#ffffff''"
    "map_of two_color_palette ''shade2'' = None" "map_of two_color_palette ''shade3'' = None"
    "map_of two_color_palette ''shade4'' = None"
    by (simp_all add: two_color_palette_def)
  have wf: "write_file ''out.rasi'' content example_world
            = Inr (example_world\<lparr>files := (files example_world)(''out.rasi'' \<mapsto> content)\<rparr>)"
    for content
    by (simp add: write_file_def dirname_def example_world_def)
  note t = ini_missing_key_fails [OF h1 h2 h3, of "''out.ini''" example_world "''out.rasi''"]
  from t h4 obtain k where k: "save_palette_to_ini (Some two_color_palette) ''out.ini'' example_world
                     = (Inl (KeyError k), example_world)"
    by blast
  have "save_palette_to_ini (Some two_color_palette) ''out.ini'' example_world
          = (Inl (KeyError ''foreground-alt''), example_world)"
    by (simp add: save_palette_to_ini_def two_color_palette_def main_colors_def lookup_def)
  with k have k': "k = ''foreground-alt''" by simp
  from t m(1) have "\<exists>content. content =
               ''/* colors */'' @ nl @ nl @ ''* {'' @ nl
               @ ''  al:    #00000000;'' @ nl
               @ ''  bg:    '' @ ''#000000'' @ ''FF;'' @ nl
               @ ''  bg1:   '' @ (case map_of two_color_palette ''shade1'' of None \<Rightarrow> ''#000000'' | Some v \<Rightarrow> v) @ ''FF;'' @ nl
               @ ''  bg2:   '' @ (case map_of two_color_palette ''shade2'' of None \<Rightarrow> ''#000000'' | Some v \<Rightarrow> v) @ ''FF;'' @ nl
               @ ''  bg3:   '' @ (case map_of two_color_palette ''shade3'' of None \<Rightarrow> ''#000000'' | Some v \<Rightarrow> v) @ ''FF;'' @ nl
               @ ''  bg4:   '' @ (case map_of two_color_palette ''shade4'' of None \<Rightarrow> ''#000000'' | Some v \<Rightarrow> v) @ ''FF;'' @ nl
               @ ''  fg:    '' @ ''#ffffff'' @ ''FF;'' @ nl
               @ ''}'' @ nl
             \<and> rasi_content two_color_palette = Inr content
             \<and> (\<forall>w'. write_file ''out.rasi'' content example_world = Inr w' \<longrightarrow>
                   save_palette_to_rasi (Some two_color_palette) ''out.rasi'' example_world
                     = (Inr (), print (''RASI palette saved to '' @ ''out.rasi'') w')
                   \<and> files w' ''out.rasi'' = Some content)"
    by blast
  then have r: "save_palette_to_rasi (Some two_color_palette) ''out.rasi'' example_world
      = (Inr (), print (''RASI palette saved to '' @ ''out.rasi'')
           (example_world\<lparr>files := (files example_world)(''out.rasi'' \<mapsto>
               ''/* colors */'' @ nl @ nl @ ''* {'' @ nl
               @ ''  al:    #00000000;'' @ nl
               @ ''  bg:    '' @ ''#000000'' @ ''FF;'' @ nl
               @ ''  bg1:   '' @ ''#000000'' @ ''FF;'' @ nl
               @ ''  bg2:   '' @ ''#000000'' @ ''FF;'' @ nl
               @ ''  bg3:   '' @ ''#000000'' @ ''FF;'' @ nl
               @ ''  bg4:   '' @ ''#000000'' @ ''FF;'' @ nl
               @ ''  fg:    '' @ ''#ffffff'' @ ''FF;'' @ nl
               @ ''}'' @ nl)\<rparr>))"
    unfolding h3 m(2,3,4) option.case using wf by blast
  show ?thesis
    using h1 h2 h3 h4 k unfolding k' r
    by (simp add: print_def)
qed


text \<open>
  C9 as stated fails: a palette with the background \<open>50%\<close> and no shade makes
  \<open>save_palette_to_ini\<close> raise the ValueError of the interpolation check, not a
  missing-key error.
\<close>

theorem ini_missing_key_counterexample:
  "percent_palette \<noteq> [] \<and> ''shade1'' \<in> set palette_keys
   \<and> map_of percent_palette ''shade1'' = None
   \<and> save_palette_to_ini (Some percent_palette) ''out.ini'' example_world
       = (Inl (ValueError (''invalid interpolation syntax in '' @ [CHR 0x27] @ ''50%'' @ [CHR 0x27]
                           @ '' at position 2'')), example_world)"
  by (simp add: percent_palette_def palette_keys_def save_palette_to_ini_def main_colors_def
        lookup_def config_set_def interpolation_example)

end
